theory Spec2Isabelle
  imports Main
begin

section \<open>JavaScript values, strings and thrown values\<close>

text \<open>
  A JavaScript string is modelled by the list of its code units, for texts in the
  Latin-1 range. A value is what \<open>JSON.parse\<close> can build, plus \<open>undefined\<close>, which
  property reads produce. A number is kept as the decimal text that JavaScript prints
  for it (\<open>Number::toString\<close>), which determines the number: \<open>JNum ''10''\<close> is \<open>10\<close>.
\<close>

datatype jsval =
    JUndefined
  | JNull
  | JBool bool
  | JNum string
  | JStr string
  | JArr "jsval list"
  | JObj "(string \<times> jsval) list"

text \<open>
  What a \<open>throw\<close> carries: an instance of \<open>Error\<close> with its message and its \<open>status\<close>
  property (\<open>JUndefined\<close> when it has none), or any other value.
\<close>

datatype thrown =
    JsError (err_message: string) (err_status: jsval)
  | Thrown jsval

definition TypeError :: thrown where
  "TypeError = JsError ''TypeError'' JUndefined"

fun truthy :: "jsval \<Rightarrow> bool" where
  "truthy JUndefined = False"
| "truthy JNull = False"
| "truthy (JBool b) = b"
| "truthy (JNum n) = (n \<noteq> ''0'' \<and> n \<noteq> ''NaN'')"
| "truthy (JStr s) = (s \<noteq> [])"
| "truthy (JArr xs) = True"
| "truthy (JObj kvs) = True"

fun join :: "string \<Rightarrow> string list \<Rightarrow> string" where
  "join sep [] = []"
| "join sep [x] = x"
| "join sep (x # y # ys) = x @ sep @ join sep (y # ys)"

fun digit_char :: "nat \<Rightarrow> char" where
  "digit_char n = char_of (48 + n mod 10)"

fun digits :: "nat \<Rightarrow> nat \<Rightarrow> string \<Rightarrow> string" where
  "digits 0 n acc = acc"
| "digits (Suc fuel) n acc =
     (if n < 10 then digit_char n # acc else digits fuel (n div 10) (digit_char n # acc))"

definition nat_to_string :: "nat \<Rightarrow> string" where
  "nat_to_string n = digits (Suc n) n []"

text \<open>
  \<open>String(v)\<close>, as string concatenation and template literals apply it. On an object
  the conversion calls its \<open>toString\<close>; an object that \<open>JSON.parse\<close> built inherits it
  and prints as \<open>[object Object]\<close>, unless it has a property \<open>toString\<close> of its own,
  which is no function: then the conversion throws a \<open>TypeError\<close>. An array prints its
  elements joined by commas, \<open>null\<close> and \<open>undefined\<close> as the empty text.
\<close>

fun js_to_string :: "jsval \<Rightarrow> thrown + string"
  and js_strings :: "jsval list \<Rightarrow> thrown + string list" where
  "js_to_string JUndefined = Inr ''undefined''"
| "js_to_string JNull = Inr ''null''"
| "js_to_string (JBool b) = Inr (if b then ''true'' else ''false'')"
| "js_to_string (JNum n) = Inr n"
| "js_to_string (JStr s) = Inr s"
| "js_to_string (JArr xs) =
     (case js_strings xs of Inl e \<Rightarrow> Inl e | Inr texts \<Rightarrow> Inr (join '','' texts))"
| "js_to_string (JObj kvs) =
     (if map_of kvs ''toString'' = None then Inr ''[object Object]'' else Inl TypeError)"
| "js_strings [] = Inr []"
| "js_strings (x # xs) =
     (case (if x = JNull \<or> x = JUndefined then Inr [] else js_to_string x) of
        Inl e \<Rightarrow> Inl e
      | Inr t \<Rightarrow> (case js_strings xs of Inl e \<Rightarrow> Inl e | Inr texts \<Rightarrow> Inr (t # texts)))"

text \<open>
  A template literal, as the list of its parts in order: the text between the
  substitutions, and the substitutions converted to strings. It throws what the first
  failing part throws.
\<close>

fun template :: "(thrown + string) list \<Rightarrow> thrown + string" where
  "template [] = Inr []"
| "template (part # parts) =
     (case part of
        Inl e \<Rightarrow> Inl e
      | Inr t \<Rightarrow> (case template parts of Inl e \<Rightarrow> Inl e | Inr rest \<Rightarrow> Inr (t @ rest)))"

text \<open>
  Values that \<open>===\<close> compares by what they are; arrays and objects it compares by
  identity.
\<close>

fun is_primitive :: "jsval \<Rightarrow> bool" where
  "is_primitive (JArr xs) = False"
| "is_primitive (JObj kvs) = False"
| "is_primitive v = True"

text \<open>
  A property read \<open>v.key\<close>: a \<open>TypeError\<close> on \<open>null\<close> and \<open>undefined\<close>, the own property
  of an object, the length of an array or a string, \<open>undefined\<close> otherwise. Of the
  properties the program reads from such values, none is supplied by a prototype.
\<close>

fun js_get :: "jsval \<Rightarrow> string \<Rightarrow> thrown + jsval" where
  "js_get JUndefined key = Inl TypeError"
| "js_get JNull key = Inl TypeError"
| "js_get (JObj kvs) key = (case map_of kvs key of Some v \<Rightarrow> Inr v | None \<Rightarrow> Inr JUndefined)"
| "js_get (JArr xs) key =
     (if key = ''length'' then Inr (JNum (nat_to_string (length xs))) else Inr JUndefined)"
| "js_get (JStr s) key =
     (if key = ''length'' then Inr (JNum (nat_to_string (length s))) else Inr JUndefined)"
| "js_get v key = Inr JUndefined"

text \<open>
  Optional chaining \<open>v?.key\<close>; it also stands for \<open>v.key\<close> where \<open>v\<close> is known to be
  neither \<open>null\<close> nor \<open>undefined\<close>.
\<close>

fun js_get_opt :: "jsval \<Rightarrow> string \<Rightarrow> jsval" where
  "js_get_opt v key = (case js_get v key of Inl e \<Rightarrow> JUndefined | Inr x \<Rightarrow> x)"

definition is_space :: "char \<Rightarrow> bool" where
  "is_space c = (c \<in> set [CHR 0x09, CHR 0x0A, CHR 0x0B, CHR 0x0C, CHR 0x0D, CHR 0x20, CHR 0xA0])"

definition lower_char :: "char \<Rightarrow> char" where
  "lower_char c =
     (let n = (of_char c :: nat) in
      if (65 \<le> n \<and> n \<le> 90) \<or> (192 \<le> n \<and> n \<le> 222 \<and> n \<noteq> 215) then char_of (n + 32) else c)"

definition toLowerCase :: "string \<Rightarrow> string" where
  "toLowerCase s = map lower_char s"

definition trim :: "string \<Rightarrow> string" where
  "trim s = rev (dropWhile is_space (rev (dropWhile is_space s)))"

fun startsWith :: "string \<Rightarrow> string \<Rightarrow> bool" where
  "startsWith s [] = True"
| "startsWith [] (p # ps) = False"
| "startsWith (c # cs) (p # ps) = (c = p \<and> startsWith cs ps)"

text \<open>\<open>s.includes(p)\<close>: \<open>p\<close> occurs in \<open>s\<close> as a substring.\<close>

fun includes_str :: "string \<Rightarrow> string \<Rightarrow> bool" where
  "includes_str [] p = (p = [])"
| "includes_str (c # cs) p = (startsWith (c # cs) p \<or> includes_str cs p)"

text \<open>\<open>s.split('\n')\<close>.\<close>

fun split_lines :: "string \<Rightarrow> string \<Rightarrow> string list" where
  "split_lines [] cur = [cur]"
| "split_lines (c # cs) cur =
     (if c = CHR 0x0A then cur # split_lines cs [] else split_lines cs (cur @ [c]))"

section \<open>Regular expressions\<close>

text \<open>
  The regular expressions of the program use literal words and alternatives of them,
  the classes \<open>\s\<close>, \<open>\d\<close>, \<open>[A-Z]\<close>, \<open>.\<close> and \<open>["']\<close> with \<open>*\<close>, \<open>+\<close> and \<open>+?\<close>,
  optional parts, one capture group, and \<open>^\<close>. All that name a letter carry the flag
  \<open>i\<close>, so letters are compared without case.
\<close>

datatype cclass = Space | Digit | Letter | Dot | Quote

datatype regex =
    Bol
  | Words "string list"
  | Cls cclass
  | Star cclass
  | Plus cclass
  | PlusLazy cclass
  | Opt regex
  | Group regex
  | Seq regex regex

definition is_digit :: "char \<Rightarrow> bool" where
  "is_digit c = (48 \<le> (of_char c :: nat) \<and> (of_char c :: nat) \<le> 57)"

definition is_letter :: "char \<Rightarrow> bool" where
  "is_letter c =
     (let n = (of_char c :: nat) in (65 \<le> n \<and> n \<le> 90) \<or> (97 \<le> n \<and> n \<le> 122))"

fun in_class :: "cclass \<Rightarrow> char \<Rightarrow> bool" where
  "in_class Space c = is_space c"
| "in_class Digit c = is_digit c"
| "in_class Letter c = is_letter c"
| "in_class Dot c = (c \<noteq> CHR 0x0A \<and> c \<noteq> CHR 0x0D)"
| "in_class Quote c = (c = CHR 0x22 \<or> c = CHR 0x27)"

text \<open>The input starts with the word, letters compared without case.\<close>

fun starts_word :: "string \<Rightarrow> string \<Rightarrow> bool" where
  "starts_word s [] = True"
| "starts_word [] (p # ps) = False"
| "starts_word (c # cs) (p # ps) = (lower_char c = lower_char p \<and> starts_word cs ps)"

text \<open>
  The backtracking matcher. A state is the position in the subject, the rest of the
  subject from there, and the text of the capture group; \<open>k\<close> is what remains to be
  matched. The first way to match that \<open>k\<close> accepts is taken, with the priorities of
  JavaScript: alternatives from left to right, greedy quantifiers from the longest
  repetition down, lazy ones from the shortest up.
\<close>

type_synonym mstate = "nat \<times> string \<times> string option"

fun try_words ::
  "string list \<Rightarrow> mstate \<Rightarrow> (mstate \<Rightarrow> (nat \<times> string option) option) \<Rightarrow>
     (nat \<times> string option) option" where
  "try_words [] s k = None"
| "try_words (word # ws) (i, rest, cap) k =
     (if starts_word rest word
      then (case k (i + length word, drop (length word) rest, cap) of
              Some r \<Rightarrow> Some r
            | None \<Rightarrow> try_words ws (i, rest, cap) k)
      else try_words ws (i, rest, cap) k)"

fun greedy ::
  "cclass \<Rightarrow> mstate \<Rightarrow> (mstate \<Rightarrow> (nat \<times> string option) option) \<Rightarrow>
     (nat \<times> string option) option" where
  "greedy cl (i, [], cap) k = k (i, [], cap)"
| "greedy cl (i, c # cs, cap) k =
     (if in_class cl c
      then (case greedy cl (Suc i, cs, cap) k of
              Some r \<Rightarrow> Some r
            | None \<Rightarrow> k (i, c # cs, cap))
      else k (i, c # cs, cap))"

fun lazy ::
  "cclass \<Rightarrow> mstate \<Rightarrow> (mstate \<Rightarrow> (nat \<times> string option) option) \<Rightarrow>
     (nat \<times> string option) option" where
  "lazy cl (i, [], cap) k = k (i, [], cap)"
| "lazy cl (i, c # cs, cap) k =
     (case k (i, c # cs, cap) of
        Some r \<Rightarrow> Some r
      | None \<Rightarrow> if in_class cl c then lazy cl (Suc i, cs, cap) k else None)"

fun one_of ::
  "cclass \<Rightarrow> mstate \<Rightarrow> (mstate \<Rightarrow> (nat \<times> string option) option) \<Rightarrow>
     (nat \<times> string option) option" where
  "one_of cl (i, [], cap) k = None"
| "one_of cl (i, c # cs, cap) k = (if in_class cl c then k (Suc i, cs, cap) else None)"

fun matcher ::
  "regex \<Rightarrow> mstate \<Rightarrow> (mstate \<Rightarrow> (nat \<times> string option) option) \<Rightarrow>
     (nat \<times> string option) option" where
  "matcher Bol (i, rest, cap) k = (if i = 0 then k (i, rest, cap) else None)"
| "matcher (Words ws) s k = try_words ws s k"
| "matcher (Cls cl) s k = one_of cl s k"
| "matcher (Star cl) s k = greedy cl s k"
| "matcher (Plus cl) s k = one_of cl s (\<lambda>s'. greedy cl s' k)"
| "matcher (PlusLazy cl) s k = one_of cl s (\<lambda>s'. lazy cl s' k)"
| "matcher (Opt r) s k = (case matcher r s k of Some x \<Rightarrow> Some x | None \<Rightarrow> k s)"
| "matcher (Group r) (i, rest, cap) k =
     matcher r (i, rest, cap) (\<lambda>(j, rest', cap'). k (j, rest', Some (take (j - i) rest)))"
| "matcher (Seq a b) s k = matcher a s (\<lambda>s'. matcher b s' k)"

fun seqs :: "regex list \<Rightarrow> regex" where
  "seqs [] = Words [[]]"
| "seqs [r] = r"
| "seqs (r # rs) = Seq r (seqs rs)"

text \<open>
  A match that starts at position \<open>i\<close>, where \<open>rest\<close> is the subject from \<open>i\<close> on: the
  position where it ends, and the capture.
\<close>

definition match_at :: "regex \<Rightarrow> nat \<Rightarrow> string \<Rightarrow> (nat \<times> string option) option" where
  "match_at r i rest = matcher r (i, rest, None) (\<lambda>(j, rest', cap). Some (j, cap))"

text \<open>The leftmost match: where it starts and ends, and the capture.\<close>

fun search_from :: "regex \<Rightarrow> nat \<Rightarrow> string \<Rightarrow> (nat \<times> nat \<times> string option) option" where
  "search_from r i [] = (case match_at r i [] of Some (j, cap) \<Rightarrow> Some (i, j, cap) | None \<Rightarrow> None)"
| "search_from r i (c # cs) =
     (case match_at r i (c # cs) of
        Some (j, cap) \<Rightarrow> Some (i, j, cap)
      | None \<Rightarrow> search_from r (Suc i) cs)"

text \<open>
  \<open>s.match(r)\<close> for a regular expression without the flag \<open>g\<close>: the matched text and
  the text of group 1 (empty when the group took no part), or \<open>None\<close> for \<open>null\<close>.
\<close>

definition re_match :: "regex \<Rightarrow> string \<Rightarrow> (string \<times> string) option" where
  "re_match r s =
     (case search_from r 0 s of
        None \<Rightarrow> None
      | Some (i, j, cap) \<Rightarrow>
          Some (take (j - i) (drop i s), (case cap of Some g \<Rightarrow> g | None \<Rightarrow> [])))"

text \<open>\<open>s.replace(r, repl)\<close> without the flag \<open>g\<close>: the leftmost match is replaced.\<close>

definition replace_first :: "regex \<Rightarrow> string \<Rightarrow> string \<Rightarrow> string" where
  "replace_first r repl s =
     (case search_from r 0 s of
        None \<Rightarrow> s
      | Some (i, j, cap) \<Rightarrow> take i s @ repl @ drop j s)"

text \<open>
  \<open>s.replace(r, repl)\<close> with the flag \<open>g\<close>: every match is replaced, each search
  starting where the match before it ended (one further on after an empty match).
\<close>

fun replace_from :: "regex \<Rightarrow> string \<Rightarrow> nat \<Rightarrow> string \<Rightarrow> string" where
  "replace_from r repl i [] = (case match_at r i [] of Some m \<Rightarrow> repl | None \<Rightarrow> [])"
| "replace_from r repl i (c # cs) =
     (case match_at r i (c # cs) of
        None \<Rightarrow> c # replace_from r repl (Suc i) cs
      | Some (j, cap) \<Rightarrow>
          if j \<le> i then repl @ c # replace_from r repl (Suc i) cs
          else repl @ replace_from r repl j (drop (j - Suc i) cs))"

definition replace_all :: "regex \<Rightarrow> string \<Rightarrow> string \<Rightarrow> string" where
  "replace_all r repl s = replace_from r repl 0 s"

section \<open>The language-model services\<close>

datatype role = User | Assistant

record LLMMessage =
  role :: role
  content :: jsval

record llm_request =
  req_model :: string
  req_messages :: "LLMMessage list"
  req_stream :: bool

text \<open>
  The invocations of the \<open>StreamCallbacks\<close>, in the order they are made. A callback is
  taken to return: the ones the program passes only send an event.
\<close>

datatype callback = OnToken jsval | OnComplete string | OnError thrown

datatype delta = TextDelta string | OtherDelta

datatype chunk = ContentBlockDelta delta | OtherChunk

datatype claude_block = TextBlock string | OtherBlock

record http_response =
  ok :: bool
  statusText :: string
  body_json :: "thrown + jsval"
  body_reader :: "(string list \<times> thrown option) option"

datatype LLMProvider = ollama | claude

text \<open>
  A service object: its turn history, and the requests it has issued to its backend,
  oldest first. \<open>model\<close> is the model name of the Ollama service.
\<close>

record llm_service =
  provider :: LLMProvider
  model :: string
  messageHistory :: "LLMMessage list"
  sent :: "llm_request list"

section \<open>The tool transport\<close>

datatype content_item = Item (item_type: string) (item_text: string)

datatype CallToolResult = CallToolResult (result_content: "content_item list option")

text \<open>
  The world outside the program. Each backend is an oracle that gives the outcome of
  the \<open>k\<close>-th request made to it (\<open>k\<close> counts from 0): \<open>tools_call\<close> the outcome of
  \<open>client.request\<close> with method \<open>tools/call\<close>; \<open>claude_create\<close> and \<open>claude_stream\<close>
  the outcome of \<open>messages.create\<close> without and with \<open>stream: true\<close> (a stream is the
  chunks it yields and the failure that ends it, if one does); \<open>ollama_fetch\<close> the
  outcome of \<open>fetch\<close>. \<open>JSON_parse\<close> and \<open>JSON_stringify\<close> are the built-in functions
  (\<open>None\<close> for a \<open>SyntaxError\<close>; \<open>JSON_stringify v\<close> is \<open>JSON.stringify(v, null, 2)\<close>).
\<close>

record world =
  tools_call :: "nat \<Rightarrow> thrown + CallToolResult"
  claude_create :: "nat \<Rightarrow> thrown + claude_block list"
  claude_stream :: "nat \<Rightarrow> thrown + (chunk list \<times> thrown option)"
  ollama_fetch :: "nat \<Rightarrow> thrown + http_response"
  JSON_parse :: "string \<Rightarrow> jsval option"
  JSON_stringify :: "jsval \<Rightarrow> string"

subsection \<open>What both services send\<close>

text \<open>
  The last element of the outbound message list:
  \<open>context ? `Context: ${context}\n\nUser: ${message}` : message\<close>.
\<close>

definition final_content :: "string \<Rightarrow> string option \<Rightarrow> string" where
  "final_content message ctx =
     (case ctx of
        None \<Rightarrow> message
      | Some c \<Rightarrow>
          if c \<noteq> [] then ''Context: '' @ c @ [CHR 0x0A, CHR 0x0A] @ ''User: '' @ message
          else message)"

definition push_user :: "string \<Rightarrow> llm_service \<Rightarrow> llm_service" where
  "push_user message s =
     s\<lparr>messageHistory := messageHistory s @ [\<lparr>role = User, content = JStr message\<rparr>]\<rparr>"

definition push_assistant :: "jsval \<Rightarrow> llm_service \<Rightarrow> llm_service" where
  "push_assistant v s =
     s\<lparr>messageHistory := messageHistory s @ [\<lparr>role = Assistant, content = v\<rparr>]\<rparr>"

definition outbound :: "string \<Rightarrow> string option \<Rightarrow> llm_service \<Rightarrow> LLMMessage list" where
  "outbound message ctx s =
     messageHistory s @ [\<lparr>role = User, content = JStr (final_content message ctx)\<rparr>]"

subsection \<open>ClaudeService\<close>

definition ClaudeService_chat ::
  "world \<Rightarrow> string \<Rightarrow> string option \<Rightarrow> llm_service \<Rightarrow> (thrown + jsval) \<times> llm_service" where
  "ClaudeService_chat w message ctx s =
     (let s1 = push_user message s;
          req = \<lparr>req_model = ''claude-3-opus-20240229'',
                 req_messages = outbound message ctx s1, req_stream = False\<rparr>;
          s2 = s1\<lparr>sent := sent s1 @ [req]\<rparr>
      in case claude_create w (length (sent s1)) of
           Inl e \<Rightarrow> (Inl e, s2)
         | Inr blocks \<Rightarrow>
             (case blocks of
                [] \<Rightarrow> (Inl TypeError, s2)
              | b # bs \<Rightarrow>
                  (let assistantMessage =
                         (case b of TextBlock t \<Rightarrow> t | OtherBlock \<Rightarrow> ''Unable to process response'')
                   in (Inr (JStr assistantMessage), push_assistant (JStr assistantMessage) s2))))"

text \<open>The \<open>for await\<close> loop over the chunks of the stream.\<close>

fun claude_chunks :: "chunk list \<Rightarrow> string \<Rightarrow> callback list \<Rightarrow> string \<times> callback list" where
  "claude_chunks [] fullResponse cbs = (fullResponse, cbs)"
| "claude_chunks (ContentBlockDelta (TextDelta t) # cs) fullResponse cbs =
     claude_chunks cs (fullResponse @ t) (cbs @ [OnToken (JStr t)])"
| "claude_chunks (c # cs) fullResponse cbs = claude_chunks cs fullResponse cbs"

definition ClaudeService_streamChat ::
  "world \<Rightarrow> string \<Rightarrow> string option \<Rightarrow> llm_service \<Rightarrow>
     (thrown + unit) \<times> callback list \<times> llm_service" where
  "ClaudeService_streamChat w message ctx s =
     (let s1 = push_user message s;
          req = \<lparr>req_model = ''claude-3-opus-20240229'',
                 req_messages = outbound message ctx s1, req_stream = True\<rparr>;
          s2 = s1\<lparr>sent := sent s1 @ [req]\<rparr>
      in case claude_stream w (length (sent s1)) of
           Inl e \<Rightarrow> (Inl e, [OnError e], s2)
         | Inr (chunks, failure) \<Rightarrow>
             (let (fullResponse, cbs) = claude_chunks chunks [] []
              in case failure of
                   Some e \<Rightarrow> (Inl e, cbs @ [OnError e], s2)
                 | None \<Rightarrow>
                     (Inr (), cbs @ [OnComplete fullResponse],
                      push_assistant (JStr fullResponse) s2)))"

subsection \<open>OllamaService\<close>

definition OllamaService_chat ::
  "world \<Rightarrow> string \<Rightarrow> string option \<Rightarrow> llm_service \<Rightarrow> (thrown + jsval) \<times> llm_service" where
  "OllamaService_chat w message ctx s =
     (let s1 = push_user message s;
          req = \<lparr>req_model = model s1, req_messages = outbound message ctx s1,
                 req_stream = False\<rparr>;
          s2 = s1\<lparr>sent := sent s1 @ [req]\<rparr>
      in case ollama_fetch w (length (sent s1)) of
           Inl e \<Rightarrow> (Inl e, s2)
         | Inr response \<Rightarrow>
             if \<not> ok response
             then (Inl (JsError (''Ollama API error: '' @ statusText response) JUndefined), s2)
             else
               (case body_json response of
                  Inl e \<Rightarrow> (Inl e, s2)
                | Inr data \<Rightarrow>
                    (case js_get data ''message'' of
                       Inl e \<Rightarrow> (Inl e, s2)
                     | Inr m \<Rightarrow>
                         (case js_get m ''content'' of
                            Inl e \<Rightarrow> (Inl e, s2)
                          | Inr assistantMessage \<Rightarrow>
                              (Inr assistantMessage, push_assistant assistantMessage s2)))))"

text \<open>
  One line of a streamed chunk: \<open>JSON.parse(line)\<close>, then \<open>data.message?.content\<close>;
  a failure of these is caught and the line is skipped.
\<close>

definition ollama_line :: "world \<Rightarrow> string \<Rightarrow> jsval option" where
  "ollama_line w line =
     (case JSON_parse w line of
        None \<Rightarrow> None
      | Some data \<Rightarrow>
          (case js_get data ''message'' of
             Inl e \<Rightarrow> None
           | Inr m \<Rightarrow>
               (let c = js_get_opt m ''content'' in if truthy c then Some c else None)))"

text \<open>
  The \<open>for\<close> loop over the lines of a chunk. A content is handed to \<open>onToken\<close> and
  then appended to \<open>fullResponse\<close>; when it has no string form the append throws, the
  \<open>catch\<close> inside the loop takes it, and \<open>fullResponse\<close> stays as it was.
\<close>

fun ollama_lines ::
  "world \<Rightarrow> string list \<Rightarrow> string \<Rightarrow> callback list \<Rightarrow> string \<times> callback list" where
  "ollama_lines w [] fullResponse cbs = (fullResponse, cbs)"
| "ollama_lines w (line # lines) fullResponse cbs =
     (case ollama_line w line of
        Some c \<Rightarrow>
          ollama_lines w lines
            (case js_to_string c of Inr t \<Rightarrow> fullResponse @ t | Inl e \<Rightarrow> fullResponse)
            (cbs @ [OnToken c])
      | None \<Rightarrow> ollama_lines w lines fullResponse cbs)"

text \<open>The \<open>while (true)\<close> loop over the reads of the body, until \<open>done\<close>.\<close>

fun ollama_reads ::
  "world \<Rightarrow> string list \<Rightarrow> string \<Rightarrow> callback list \<Rightarrow> string \<times> callback list" where
  "ollama_reads w [] fullResponse cbs = (fullResponse, cbs)"
| "ollama_reads w (chunk # chunks) fullResponse cbs =
     (let lines = filter (\<lambda>line. trim line \<noteq> []) (split_lines chunk []);
          (fullResponse', cbs') = ollama_lines w lines fullResponse cbs
      in ollama_reads w chunks fullResponse' cbs')"

definition OllamaService_streamChat ::
  "world \<Rightarrow> string \<Rightarrow> string option \<Rightarrow> llm_service \<Rightarrow>
     (thrown + unit) \<times> callback list \<times> llm_service" where
  "OllamaService_streamChat w message ctx s =
     (let s1 = push_user message s;
          req = \<lparr>req_model = model s1, req_messages = outbound message ctx s1,
                 req_stream = True\<rparr>;
          s2 = s1\<lparr>sent := sent s1 @ [req]\<rparr>
      in case ollama_fetch w (length (sent s1)) of
           Inl e \<Rightarrow> (Inl e, [OnError e], s2)
         | Inr response \<Rightarrow>
             if \<not> ok response
             then (let e = JsError (''Ollama API error: '' @ statusText response) JUndefined
                   in (Inl e, [OnError e], s2))
             else
               (case body_reader response of
                  None \<Rightarrow>
                    (let e = JsError ''Response body is not readable'' JUndefined
                     in (Inl e, [OnError e], s2))
                | Some (chunks, failure) \<Rightarrow>
                    (let (fullResponse, cbs) = ollama_reads w chunks [] []
                     in case failure of
                          Some e \<Rightarrow> (Inl e, cbs @ [OnError e], s2)
                        | None \<Rightarrow>
                            (Inr (), cbs @ [OnComplete fullResponse],
                             push_assistant (JStr fullResponse) s2))))"

subsection \<open>The service behind the \<open>LLMService\<close> interface\<close>

definition streamChat ::
  "world \<Rightarrow> string \<Rightarrow> string option \<Rightarrow> llm_service \<Rightarrow>
     (thrown + unit) \<times> callback list \<times> llm_service" where
  "streamChat w message ctx s =
     (case provider s of
        ollama \<Rightarrow> OllamaService_streamChat w message ctx s
      | claude \<Rightarrow> ClaudeService_streamChat w message ctx s)"

definition chat ::
  "world \<Rightarrow> string \<Rightarrow> string option \<Rightarrow> llm_service \<Rightarrow> (thrown + jsval) \<times> llm_service" where
  "chat w message ctx s =
     (case provider s of
        ollama \<Rightarrow> OllamaService_chat w message ctx s
      | claude \<Rightarrow> ClaudeService_chat w message ctx s)"

definition clearHistory :: "llm_service \<Rightarrow> llm_service" where
  "clearHistory s = s\<lparr>messageHistory := []\<rparr>"

section \<open>The client: state, events and the tool invoker\<close>

text \<open>
  A tool of the registry. Its \<open>inputSchema\<close> is left out: the program only logs it.
\<close>

record MCPTool =
  name :: string
  description :: "string option"

text \<open>
  What the program does on the tool transport, in order: a \<open>tools/call\<close> request with
  the tool's name and arguments, or a wait of so many milliseconds.
\<close>

datatype tool_action = Request string jsval | Delay nat

text \<open>
  The messages the program issues towards the renderer with
  \<open>mainWindow?.webContents.send\<close>, in order: the chat channels with the \<open>content\<close> (or
  \<open>error\<close>) they carry, and \<open>mcp-message\<close> with its type and payload. They reach the
  renderer while its window exists; nothing else in the program depends on the window.
\<close>

datatype event =
    chat_token jsval
  | chat_complete jsval
  | chat_error jsval
  | mcp_message string jsval

record MCPClient =
  availableTools :: "MCPTool list"
  recentArtworks :: jsval
  llm :: llm_service
  tool_trace :: "tool_action list"
  events :: "event list"

definition MAX_RETRIES :: nat where
  "MAX_RETRIES = 3"

definition RETRY_DELAY :: nat where
  "RETRY_DELAY = 1000"

fun is_Request :: "tool_action \<Rightarrow> bool" where
  "is_Request (Request n a) = True"
| "is_Request (Delay d) = False"

definition requests_made :: "MCPClient \<Rightarrow> nat" where
  "requests_made c = length (filter is_Request (tool_trace c))"

definition log_action :: "tool_action \<Rightarrow> MCPClient \<Rightarrow> MCPClient" where
  "log_action a c = c\<lparr>tool_trace := tool_trace c @ [a]\<rparr>"

definition send :: "event \<Rightarrow> MCPClient \<Rightarrow> MCPClient" where
  "send e c = c\<lparr>events := events c @ [e]\<rparr>"

text \<open>
  The text of a response: the \<open>text\<close> of the items of type \<open>text\<close>, joined by newlines.
\<close>

definition textContent :: "content_item list \<Rightarrow> string" where
  "textContent items =
     join [CHR 0x0A] (map item_text (filter (\<lambda>item. item_type item = ''text'') items))"

definition invalid_response :: thrown where
  "invalid_response = JsError ''Invalid response format from server'' JUndefined"

text \<open>The part of \<open>callTool\<close>'s \<open>try\<close> block that follows the request.\<close>

definition read_response :: "world \<Rightarrow> CallToolResult \<Rightarrow> thrown + jsval" where
  "read_response w response =
     (case result_content response of
        None \<Rightarrow> Inl invalid_response
      | Some items \<Rightarrow>
          if textContent items \<noteq> []
          then (case JSON_parse w (textContent items) of
                  Some v \<Rightarrow> Inr v
                | None \<Rightarrow> Inr (JStr (textContent items)))
          else Inl invalid_response)"

definition retries_exhausted :: thrown where
  "retries_exhausted =
     JsError (''Server error (500) after '' @ nat_to_string MAX_RETRIES @
              '' retries. The Rijksmuseum API might be experiencing issues.'') JUndefined"

text \<open>
  \<open>callTool\<close>'s \<open>try\<close> block: the request, which is the next one on the transport, and
  the reading of its response.
\<close>

definition try_request :: "world \<Rightarrow> MCPClient \<Rightarrow> thrown + jsval" where
  "try_request w c =
     (case tools_call w (requests_made c) of
        Inl e \<Rightarrow> Inl e
      | Inr response \<Rightarrow> read_response w response)"

text \<open>
  The \<open>catch\<close> block retries on an \<open>Error\<close> whose status is the number 500, after a wait;
  the state returned has logged each request and each wait.
\<close>

function callTool ::
  "world \<Rightarrow> string \<Rightarrow> jsval \<Rightarrow> nat \<Rightarrow> MCPClient \<Rightarrow> (thrown + jsval) \<times> MCPClient" where
  "callTool w tool_name args retryCount c =
     (let c1 = log_action (Request tool_name args) c
      in case try_request w c of
           Inr v \<Rightarrow> (Inr v, c1)
         | Inl (Thrown v) \<Rightarrow> (Inl (Thrown v), c1)
         | Inl (JsError m status) \<Rightarrow>
             if status = JNum ''500'' \<and> retryCount < MAX_RETRIES
             then callTool w tool_name args (retryCount + 1) (log_action (Delay RETRY_DELAY) c1)
             else if status = JNum ''500'' then (Inl retries_exhausted, c1)
             else (Inl (JsError m status), c1))"
  by pat_completeness auto
termination
  by (relation "measure (\<lambda>(w, n, a, retryCount, c). MAX_RETRIES - retryCount)") auto

declare callTool.simps [simp del]

subsection \<open>The commands of the renderer\<close>

definition searchArtworks :: "world \<Rightarrow> string \<Rightarrow> MCPClient \<Rightarrow> MCPClient" where
  "searchArtworks w query c =
     (case callTool w ''search_artwork''
             (JObj [(''query'', JStr query), (''pageSize'', JNum ''10'')]) 0 c of
        (Inr response, c1) \<Rightarrow>
          send (mcp_message ''artworks_list'' response) (c1\<lparr>recentArtworks := response\<rparr>)
      | (Inl e, c1) \<Rightarrow> c1)"

text \<open>
  \<open>a.objectNumber === objectNumber\<close> for the entry \<open>a\<close> at index \<open>i\<close> of the cache,
  whose object number is \<open>v\<close>. The cache holds what \<open>JSON.parse\<close> built and holds no
  array or object twice, so an array or object handed over as object number is
  identical to the object number of an entry only when it was read from that entry:
  \<open>origin\<close> is the index of that entry, and \<open>None\<close> for a value that comes from the
  renderer.
\<close>

definition strict_equal :: "jsval \<Rightarrow> nat \<Rightarrow> jsval \<Rightarrow> nat option \<Rightarrow> bool" where
  "strict_equal v i objectNumber origin =
     (if is_primitive objectNumber then v = objectNumber
      else origin = Some i \<and> v = objectNumber)"

text \<open>
  \<open>recentArtworks.findIndex(a => a.objectNumber === objectNumber)\<close> on the elements of
  an array, from index \<open>i\<close> on: the index of the first hit, \<open>None\<close> for \<open>-1\<close>, a
  \<open>TypeError\<close> when an element read before a hit is \<open>null\<close>.
\<close>

fun findIndex :: "jsval list \<Rightarrow> jsval \<Rightarrow> nat option \<Rightarrow> nat \<Rightarrow> thrown + nat option" where
  "findIndex [] objectNumber origin i = Inr None"
| "findIndex (a # as) objectNumber origin i =
     (case js_get a ''objectNumber'' of
        Inl e \<Rightarrow> Inl e
      | Inr v \<Rightarrow>
          if strict_equal v i objectNumber origin then Inr (Some i)
          else findIndex as objectNumber origin (Suc i))"

text \<open>
  The update of the cache in \<open>getArtworkDetails\<close>; on a cache that is not an array,
  \<open>findIndex\<close> is not a function.
\<close>

definition update_recent :: "jsval \<Rightarrow> jsval \<Rightarrow> nat option \<Rightarrow> jsval \<Rightarrow> thrown + jsval" where
  "update_recent cache objectNumber origin response =
     (case cache of
        JArr as \<Rightarrow>
          (case findIndex as objectNumber origin 0 of
             Inl e \<Rightarrow> Inl e
           | Inr (Some index) \<Rightarrow> Inr (JArr (as[index := response]))
           | Inr None \<Rightarrow> Inr (JArr (as @ [response])))
      | _ \<Rightarrow> Inl TypeError)"

text \<open>
  \<open>getArtworkDetails(objectNumber)\<close>, with the origin of the object number (see
  \<open>strict_equal\<close>). What throws inside is caught and logged.
\<close>

definition getArtworkDetails :: "world \<Rightarrow> jsval \<Rightarrow> nat option \<Rightarrow> MCPClient \<Rightarrow> MCPClient" where
  "getArtworkDetails w objectNumber origin c =
     (case callTool w ''get_artwork_details'' (JObj [(''objectNumber'', objectNumber)]) 0 c of
        (Inr response, c1) \<Rightarrow>
          (case update_recent (recentArtworks c1) objectNumber origin response of
             Inl e \<Rightarrow> c1
           | Inr cache \<Rightarrow>
               send (mcp_message ''artwork_details'' response) (c1\<lparr>recentArtworks := cache\<rparr>))
      | (Inl e, c1) \<Rightarrow> c1)"

definition openImageInBrowser :: "world \<Rightarrow> jsval \<Rightarrow> MCPClient \<Rightarrow> MCPClient" where
  "openImageInBrowser w imageUrl c =
     snd (callTool w ''open_image_in_browser'' (JObj [(''imageUrl'', imageUrl)]) 0 c)"

definition clearChatHistory :: "MCPClient \<Rightarrow> MCPClient" where
  "clearChatHistory c = c\<lparr>llm := clearHistory (llm c)\<rparr>"

section \<open>The intent matcher\<close>

text \<open>The trigger phrases of \<open>matchesToolIntent\<close>, an object literal in the program.\<close>

definition toolTriggers :: "(string \<times> string list) list" where
  "toolTriggers =
     [(''search_artwork'',
         [''search'', ''find'', ''look for'', ''show me'', ''info on'', ''information on'',
          ''tell me about'']),
      (''get_artwork_details'',
         [''details'', ''tell me about'', ''information about'', ''more about'']),
      (''get_artwork_image'', [''show image'', ''display image'', ''view image'']),
      (''get_user_sets'', [''show collections'', ''user collections'', ''sets'']),
      (''get_user_set_details'', [''collection details'', ''set details'']),
      (''open_image_in_browser'', [''open image'', ''open in browser'']),
      (''get_artist_timeline'', [''timeline'', ''chronological'', ''artist history''])]"

text \<open>
  The properties every object literal inherits from \<open>Object.prototype\<close>. Reading one of
  them from the trigger table gives a function (an object for \<open>__proto__\<close>), not a list.
\<close>

definition Object_prototype :: "string list" where
  "Object_prototype =
     [''constructor'', ''__defineGetter__'', ''__defineSetter__'', ''hasOwnProperty'',
      ''__lookupGetter__'', ''__lookupSetter__'', ''isPrototypeOf'',
      ''propertyIsEnumerable'', ''toString'', ''valueOf'', ''__proto__'', ''toLocaleString'']"

text \<open>
  \<open>toolTriggers[tool.name] || []\<close>, then \<open>triggers.some(...)\<close>: on an inherited
  property, \<open>some\<close> is not a function and the call throws.
\<close>

definition matchesToolIntent :: "string \<Rightarrow> MCPTool \<Rightarrow> thrown + bool" where
  "matchesToolIntent message tool =
     (let msg = toLowerCase message
      in case map_of toolTriggers (name tool) of
           Some triggers \<Rightarrow> Inr (list_ex (\<lambda>trigger. includes_str msg trigger) triggers)
         | None \<Rightarrow> if name tool \<in> set Object_prototype then Inl TypeError else Inr False)"

subsection \<open>Argument extraction\<close>

definition re_verbs :: regex where
  "re_verbs = seqs [Bol, Words [''search'', ''find'', ''show'', ''display'', ''get''], Star Space]"

definition re_fillers :: regex where
  "re_fillers =
     seqs [Words [''tell me about'', ''info on'', ''information on'', ''information about''],
           Star Space]"

definition re_objectNumber :: regex where
  "re_objectNumber = seqs [Plus Letter, Words [''-''], Cls Letter, Words [''-''], Plus Digit]"

definition re_details :: regex where
  "re_details =
     seqs [Words [''details'', ''about'', ''information''], Plus Space,
           Opt (seqs [Words [''about''], Plus Space]), Group (Plus Dot)]"

definition re_image :: regex where
  "re_image =
     seqs [Words [''image''], Plus Space, Opt (seqs [Words [''of''], Plus Space]),
           Group (Plus Dot)]"

definition re_collection :: regex where
  "re_collection =
     seqs [Words [''collection''], Plus Space, Opt (seqs [Words [''details''], Plus Space]),
           Group (Plus Dot)]"

definition re_timeline_of :: regex where
  "re_timeline_of =
     seqs [Words [''timeline''], Plus Space, Opt (seqs [Words [''of''], Plus Space]),
           Group (Plus Dot)]"

definition re_show_timeline :: regex where
  "re_show_timeline =
     seqs [Words [''show'', ''get''], Plus Space, Group (PlusLazy Dot),
           seqs [Plus Space, Words [''timeline'']]]"

definition strip_quotes :: "string \<Rightarrow> string" where
  "strip_quotes s = replace_all (Cls Quote) [] s"

text \<open>The \<open>searchQuery\<close> of the \<open>search_artwork\<close> case.\<close>

definition searchQuery :: "string \<Rightarrow> string" where
  "searchQuery message =
     trim (replace_all (Plus Space) '' ''
       (strip_quotes (replace_all re_fillers [] (replace_first re_verbs [] (toLowerCase message)))))"

definition extractToolArgs :: "string \<Rightarrow> MCPTool \<Rightarrow> jsval" where
  "extractToolArgs message tool =
     (let msg = toLowerCase message
      in if name tool = ''search_artwork'' then
           (case re_match re_objectNumber (searchQuery message) of
              Some (objectNumberMatch, g) \<Rightarrow>
                JObj [(''query'', JStr objectNumberMatch), (''pageSize'', JNum ''10'')]
            | None \<Rightarrow>
                JObj [(''query'', JStr (searchQuery message)), (''pageSize'', JNum ''10''),
                      (''imgonly'', JBool True), (''s'', JStr ''relevance'')])
         else if name tool = ''get_artwork_details'' then
           JObj [(''objectNumber'',
                  JStr (case re_match re_details msg of
                          Some (m, g) \<Rightarrow> trim (strip_quotes g)
                        | None \<Rightarrow> trim (strip_quotes message)))]
         else if name tool = ''get_artwork_image'' then
           JObj [(''objectNumber'',
                  JStr (case re_match re_image msg of Some (m, g) \<Rightarrow> g | None \<Rightarrow> message))]
         else if name tool = ''get_user_sets'' then
           JObj [(''page'', JNum ''0''), (''pageSize'', JNum ''10'')]
         else if name tool = ''get_user_set_details'' then
           JObj [(''setId'',
                  JStr (case re_match re_collection msg of Some (m, g) \<Rightarrow> g | None \<Rightarrow> message))]
         else if name tool = ''get_artist_timeline'' then
           JObj [(''artist'',
                  JStr (case re_match re_timeline_of msg of
                          Some (m, g) \<Rightarrow> g
                        | None \<Rightarrow>
                            (case re_match re_show_timeline msg of
                               Some (m, g) \<Rightarrow> g
                             | None \<Rightarrow> message))),
                 (''maxWorks'', JNum ''10'')]
         else if name tool = ''open_image_in_browser'' then
           JObj [(''imageUrl'', JStr message)]
         else JObj [])"

section \<open>The formatters of tool results\<close>

text \<open>\<open>xs.join(sep)\<close> on an array: \<open>null\<close> and \<open>undefined\<close> elements give the empty text.\<close>

definition js_join :: "string \<Rightarrow> jsval list \<Rightarrow> thrown + string" where
  "js_join sep xs =
     (case js_strings xs of Inl e \<Rightarrow> Inl e | Inr texts \<Rightarrow> Inr (join sep texts))"

text \<open>
  \<open>v?.length ? `${label}${v.join(', ')}${tail}` : ''\<close>: when the length is truthy and
  \<open>v\<close> is not an array, \<open>join\<close> is not a function.
\<close>

definition joined_part :: "string \<Rightarrow> jsval \<Rightarrow> string \<Rightarrow> thrown + string" where
  "joined_part label v tail =
     (if truthy (js_get_opt v ''length'')
      then (case v of
              JArr xs \<Rightarrow> template [Inr label, js_join '', '' xs, Inr tail]
            | _ \<Rightarrow> Inl TypeError)
      else Inr [])"

text \<open>\<open>cond ? `${label}${cond}${tail}` : ''\<close>.\<close>

definition optional_part :: "string \<Rightarrow> jsval \<Rightarrow> string \<Rightarrow> thrown + string" where
  "optional_part label v tail =
     (if truthy v then template [Inr label, js_to_string v, Inr tail] else Inr [])"

definition formatArtworkDetails :: "jsval \<Rightarrow> thrown + string" where
  "formatArtworkDetails result =
     (if \<not> truthy result then Inr ''Artwork details not found''
      else
        (let imageUrl = js_get_opt (js_get_opt result ''webImage'') ''url'';
             maker = js_get_opt result ''principalOrFirstMaker''
         in template
              [Inr (''Here are the details of the artwork:'' @ [CHR 0x0A, CHR 0x0A] @ ''Title: ''),
               js_to_string (js_get_opt result ''title''),
               Inr ([CHR 0x0A] @ ''Artist: ''),
               js_to_string (if truthy maker then maker else js_get_opt result ''artist''),
               Inr [CHR 0x0A],
               optional_part ''Full Title: '' (js_get_opt result ''longTitle'') [CHR 0x0A],
               Inr [CHR 0x0A],
               optional_part ''Description: '' (js_get_opt result ''description'') [CHR 0x0A],
               Inr [CHR 0x0A],
               joined_part ''Materials: '' (js_get_opt result ''materials'') [CHR 0x0A],
               Inr [CHR 0x0A],
               joined_part ''Dimensions: '' (js_get_opt result ''dimensions'') [CHR 0x0A],
               Inr [CHR 0x0A],
               optional_part [] imageUrl [],
               Inr ([CHR 0x0A, CHR 0x0A] @
                    ''You can view more details on the Rijksmuseum website: ''),
               js_to_string (js_get_opt (js_get_opt result ''links'') ''web'')]))"

text \<open>\<open>result.map(item => `${item.date}: ${item.title}`)\<close>: a \<open>null\<close> item throws.\<close>

fun timeline_items :: "jsval list \<Rightarrow> thrown + string list" where
  "timeline_items [] = Inr []"
| "timeline_items (item # items) =
     (case js_get item ''date'' of
        Inl e \<Rightarrow> Inl e
      | Inr d \<Rightarrow>
          (case template [js_to_string d, Inr '': '', js_to_string (js_get_opt item ''title'')] of
             Inl e \<Rightarrow> Inl e
           | Inr line \<Rightarrow>
               (case timeline_items items of
                  Inl e \<Rightarrow> Inl e
                | Inr rest \<Rightarrow> Inr (line # rest))))"

definition formatArtistTimeline :: "jsval \<Rightarrow> thrown + string" where
  "formatArtistTimeline result =
     (case result of
        JArr items \<Rightarrow>
          (case timeline_items items of
             Inl e \<Rightarrow> Inl e
           | Inr lines \<Rightarrow>
               Inr (''Artist Timeline:'' @ [CHR 0x0A, CHR 0x0A] @ join [CHR 0x0A] lines))
      | _ \<Rightarrow> Inr ''No timeline available'')"

text \<open>\<open>s.split(', ').pop()\<close>: the text after the last \<open>', '\<close>.\<close>

fun last_part :: "string \<Rightarrow> string \<Rightarrow> string" where
  "last_part [] cur = cur"
| "last_part [c] cur = cur @ [c]"
| "last_part (c # d # cs) cur =
     (if c = CHR '','' \<and> d = CHR '' '' then last_part cs [] else last_part (d # cs) (cur @ [c]))"

text \<open>
  One entry of the search rendering, for the artwork at \<open>index\<close>; \<open>split\<close> is a
  function on a string only.
\<close>

definition search_entry :: "nat \<Rightarrow> jsval \<Rightarrow> thrown + string" where
  "search_entry index artwork =
     (case js_get artwork ''title'' of
        Inl e \<Rightarrow> Inl e
      | Inr title \<Rightarrow>
          template
            [Inr (nat_to_string (index + 1) @ ''. '' @ [CHR 0x22]),
             js_to_string title,
             Inr ([CHR 0x22] @ '' (''),
             js_to_string (js_get_opt artwork ''objectNumber''),
             Inr ('')'' @ [CHR 0x0A] @ ''         Created: ''),
             (case js_get_opt artwork ''longTitle'' of
                JStr longTitle \<Rightarrow> Inr (last_part longTitle [])
              | _ \<Rightarrow> Inl TypeError),
             Inr ([CHR 0x0A] @ ''         ''),
             joined_part ''Location: '' (js_get_opt artwork ''productionPlaces'') [],
             Inr ([CHR 0x0A] @ ''         ''),
             optional_part [CHR 0x0A] (js_get_opt (js_get_opt artwork ''webImage'') ''url'') []])"

fun search_entries :: "nat \<Rightarrow> jsval list \<Rightarrow> thrown + string list" where
  "search_entries index [] = Inr []"
| "search_entries index (artwork # artworks) =
     (case search_entry index artwork of
        Inl e \<Rightarrow> Inl e
      | Inr entry \<Rightarrow>
          (case search_entries (Suc index) artworks of
             Inl e \<Rightarrow> Inl e
           | Inr rest \<Rightarrow> Inr (entry # rest)))"

definition formatArtworkSearchResult :: "jsval \<Rightarrow> thrown + string" where
  "formatArtworkSearchResult result =
     (if \<not> truthy result then Inr ''No artworks found''
      else
        (case js_get_opt result ''artworks'' of
           JArr [] \<Rightarrow> Inr ''No artworks found''
         | JArr (first # others) \<Rightarrow>
             (case js_get first ''principalOrFirstMaker'' of
                Inl e \<Rightarrow> Inl e
              | Inr maker \<Rightarrow>
                  template
                    [Inr (''I found '' @ nat_to_string (length (first # others)) @
                          '' artworks by ''),
                     js_to_string maker,
                     Inr ('' in the Rijksmuseum collection:'' @ [CHR 0x0A, CHR 0x0A]),
                     (case search_entries 0 (first # others) of
                        Inl e \<Rightarrow> Inl e
                      | Inr entries \<Rightarrow> Inr (join [CHR 0x0A, CHR 0x0A] entries)),
                     Inr ([CHR 0x0A, CHR 0x0A] @
                          ''I can provide more details about any of these artworks if you're interested. Just ask about a specific artwork by its title or number.'')])
         | _ \<Rightarrow> Inr ''No artworks found''))"

section \<open>The context assembler\<close>

definition apology :: string where
  "apology = ''I apologize, but I couldn't fetch the current, accurate information from the Rijksmuseum API at the moment. I can share what I know about this topic from my general knowledge, but please note that this information might not be completely up-to-date or accurate. Would you like me to proceed with what I know?''"

definition error_notice :: string where
  "error_notice = ''I encountered an error while trying to fetch information from the Rijksmuseum. Would you like me to share what I know about this topic from my general knowledge?''"

text \<open>The \<open>switch\<close> on the tool's name that formats a result.\<close>

definition format_result :: "world \<Rightarrow> string \<Rightarrow> jsval \<Rightarrow> thrown + string" where
  "format_result w tool_name result =
     (if tool_name = ''search_artwork'' then formatArtworkSearchResult result
      else if tool_name = ''get_artwork_details'' then formatArtworkDetails result
      else if tool_name = ''get_artist_timeline'' then formatArtistTimeline result
      else Inr (''Result from '' @ tool_name @ '': '' @ JSON_stringify w result))"

text \<open>
  The loop of \<open>getRelevantContext\<close> over the tools. What throws while a tool is
  checked or its arguments are extracted reaches the outer \<open>catch\<close>; what throws in the
  call or in the formatting reaches the inner one.
\<close>

fun context_loop ::
  "world \<Rightarrow> string \<Rightarrow> MCPTool list \<Rightarrow> MCPClient \<Rightarrow> string option \<times> MCPClient" where
  "context_loop w message [] c = (None, c)"
| "context_loop w message (tool # tools) c =
     (case matchesToolIntent message tool of
        Inl e \<Rightarrow> (Some error_notice, c)
      | Inr matches \<Rightarrow>
          if matches
          then (case callTool w (name tool) (extractToolArgs message tool) 0 c of
                  (Inl e, c1) \<Rightarrow> (Some apology, c1)
                | (Inr result, c1) \<Rightarrow>
                    (case format_result w (name tool) result of
                       Inl e \<Rightarrow> (Some apology, c1)
                     | Inr rendering \<Rightarrow> (Some rendering, c1)))
          else context_loop w message tools c)"

definition getRelevantContext ::
  "world \<Rightarrow> string \<Rightarrow> MCPClient \<Rightarrow> string option \<times> MCPClient" where
  "getRelevantContext w message c = context_loop w message (availableTools c) c"

section \<open>Direct actions and the processing of a chat message\<close>

definition re_image_request :: regex where
  "re_image_request =
     seqs [Words [''show'', ''open'', ''view'', ''display''], Plus Space,
           Opt (seqs [Words [''the''], Plus Space]), Words [''image''], Plus Space,
           Opt (seqs [Words [''of''], Plus Space]), Group (Plus Dot)]"

definition re_details_request :: regex where
  "re_details_request =
     seqs [Words [''tell'', ''show'', ''give''], Plus Space,
           Opt (seqs [Words [''me''], Plus Space]), Opt (seqs [Words [''more''], Plus Space]),
           Words [''details'', ''information''], Plus Space,
           Opt (seqs [Words [''about''], Plus Space]), Group (Plus Dot)]"

text \<open>
  The callback of \<open>recentArtworks.find\<close>:
  \<open>a.title.toLowerCase().includes(artworkName) || a.artist.toLowerCase().includes(artworkName)\<close>.
\<close>

definition names_artwork :: "jsval \<Rightarrow> string \<Rightarrow> thrown + bool" where
  "names_artwork a artworkName =
     (case js_get a ''title'' of
        Inl e \<Rightarrow> Inl e
      | Inr (JStr title) \<Rightarrow>
          if includes_str (toLowerCase title) artworkName then Inr True
          else (case js_get_opt a ''artist'' of
                  JStr artist \<Rightarrow> Inr (includes_str (toLowerCase artist) artworkName)
                | _ \<Rightarrow> Inl TypeError)
      | Inr _ \<Rightarrow> Inl TypeError)"

text \<open>\<open>xs.find(...)\<close> from index \<open>i\<close> on: the first hit, with its index.\<close>

fun find_named :: "jsval list \<Rightarrow> string \<Rightarrow> nat \<Rightarrow> thrown + (nat \<times> jsval) option" where
  "find_named [] artworkName i = Inr None"
| "find_named (a # as) artworkName i =
     (case names_artwork a artworkName of
        Inl e \<Rightarrow> Inl e
      | Inr hit \<Rightarrow> if hit then Inr (Some (i, a)) else find_named as artworkName (Suc i))"

text \<open>\<open>this.recentArtworks.find(...)\<close>; on a cache that is not an array it throws.\<close>

definition find_artwork :: "jsval \<Rightarrow> string \<Rightarrow> thrown + (nat \<times> jsval) option" where
  "find_artwork cache artworkName =
     (case cache of JArr as \<Rightarrow> find_named as artworkName 0 | _ \<Rightarrow> Inl TypeError)"

text \<open>
  The confirmation an action returns, `${before}"${artwork.title}" by
  ${artwork.artist}${after}`. It is built after the action has run.
\<close>

definition confirmation :: "string \<Rightarrow> jsval \<Rightarrow> string \<Rightarrow> thrown + string option" where
  "confirmation before artwork after =
     (case template
             [Inr (before @ [CHR 0x22]), js_to_string (js_get_opt artwork ''title''),
              Inr ([CHR 0x22] @ '' by ''), js_to_string (js_get_opt artwork ''artist''),
              Inr after] of
        Inl e \<Rightarrow> Inl e
      | Inr t \<Rightarrow> Inr (Some t))"

text \<open>The second half of \<open>extractAndExecuteActions\<close>: the request for details.\<close>

definition details_action ::
  "world \<Rightarrow> string \<Rightarrow> MCPClient \<Rightarrow> (thrown + string option) \<times> MCPClient" where
  "details_action w lowerMessage c =
     (case re_match re_details_request lowerMessage of
        None \<Rightarrow> (Inr None, c)
      | Some (m, artworkName) \<Rightarrow>
          (case find_artwork (recentArtworks c) artworkName of
             Inl e \<Rightarrow> (Inl e, c)
           | Inr None \<Rightarrow> (Inr None, c)
           | Inr (Some (index, artwork)) \<Rightarrow>
               (confirmation ''I've retrieved the details for '' artwork ''.'',
                getArtworkDetails w (js_get_opt artwork ''objectNumber'') (Some index) c)))"

definition extractAndExecuteActions ::
  "world \<Rightarrow> string \<Rightarrow> MCPClient \<Rightarrow> (thrown + string option) \<times> MCPClient" where
  "extractAndExecuteActions w message c =
     (let lowerMessage = toLowerCase message
      in case re_match re_image_request lowerMessage of
           None \<Rightarrow> details_action w lowerMessage c
         | Some (m, artworkName) \<Rightarrow>
             (case find_artwork (recentArtworks c) artworkName of
                Inl e \<Rightarrow> (Inl e, c)
              | Inr None \<Rightarrow> details_action w lowerMessage c
              | Inr (Some (index, artwork)) \<Rightarrow>
                  if truthy (js_get_opt artwork ''imageUrl'')
                  then (confirmation ''I've opened the image of '' artwork '' in your browser.'',
                        openImageInBrowser w (js_get_opt artwork ''imageUrl'') c)
                  else details_action w lowerMessage c))"

text \<open>The prompt that \<open>processMessage\<close> hands to the service as context.\<close>

definition fullContext :: "string option \<Rightarrow> string option \<Rightarrow> string \<Rightarrow> string" where
  "fullContext actionResult ctx message =
     [CHR 0x0A] @
     ''Assistant: I am an AI assistant with access to the Rijksmuseum's art collection. When showing artwork details, I should include both the artwork information and its image URLs directly in my response without any prefixes or labels.'' @
     [CHR 0x0A] @
     (case actionResult of
        None \<Rightarrow> []
      | Some a \<Rightarrow> if a \<noteq> [] then [CHR 0x0A] @ ''Last action: '' @ a else []) @
     [CHR 0x0A] @
     (case ctx of
        None \<Rightarrow> []
      | Some x \<Rightarrow> if x \<noteq> [] then [CHR 0x0A] @ ''Context from Rijksmuseum: '' @ x else []) @
     [CHR 0x0A, CHR 0x0A] @ ''User's message: '' @ message @ [CHR 0x0A, CHR 0x0A] @
     ''I should respond to the user's message using the context above when relevant. If there are image URLs in the context, I should include them in my response exactly as they appear, without adding any labels or prefixes like '' @
     [CHR 0x22] @ ''Image URL:'' @ [CHR 0x22] @ ''.''"

text \<open>
  The callbacks \<open>processMessage\<close> passes to \<open>streamChat\<close>, as the events they send.
  \<open>error.message\<close> of a thrown value that is not an \<open>Error\<close> is its property \<open>message\<close>;
  reading it from \<open>null\<close> or \<open>undefined\<close> throws before anything is sent.
\<close>

fun callback_events :: "callback \<Rightarrow> event list" where
  "callback_events (OnToken token) = [chat_token token]"
| "callback_events (OnComplete fullResponse) = [chat_complete (JStr fullResponse)]"
| "callback_events (OnError (JsError m status)) = [chat_error (JStr m)]"
| "callback_events (OnError (Thrown v)) =
     (case js_get v ''message'' of Inl e \<Rightarrow> [] | Inr m \<Rightarrow> [chat_error m])"

text \<open>
  \<open>context?.includes("apologize") || context?.includes("encountered an error")\<close>, for
  a context that is not \<open>undefined\<close>.
\<close>

definition is_error_context :: "string \<Rightarrow> bool" where
  "is_error_context x = (includes_str x ''apologize'' \<or> includes_str x ''encountered an error'')"

definition failed_to_process :: event where
  "failed_to_process = chat_error (JStr ''Failed to process message'')"

text \<open>The rest of \<open>processMessage\<close> when the context is not sent as it is.\<close>

definition ask_model ::
  "world \<Rightarrow> string \<Rightarrow> string option \<Rightarrow> string option \<Rightarrow> MCPClient \<Rightarrow> MCPClient" where
  "ask_model w message actionResult ctx c =
     (case streamChat w message (Some (fullContext actionResult ctx message)) (llm c) of
        (r, cbs, s) \<Rightarrow>
          (let c' = c\<lparr>llm := s, events := events c @ concat (map callback_events cbs)\<rparr>
           in case r of
                Inl e \<Rightarrow> send failed_to_process c'
              | Inr u \<Rightarrow> c'))"

definition processMessage :: "world \<Rightarrow> string \<Rightarrow> MCPClient \<Rightarrow> MCPClient" where
  "processMessage w message c =
     (case extractAndExecuteActions w message c of
        (Inl e, c1) \<Rightarrow> send failed_to_process c1
      | (Inr actionResult, c1) \<Rightarrow>
          (case getRelevantContext w message c1 of
             (None, c2) \<Rightarrow> ask_model w message actionResult None c2
           | (Some x, c2) \<Rightarrow>
               if is_error_context x
               then send (chat_complete (JStr x)) (send (chat_token (JStr x)) c2)
               else ask_model w message actionResult (Some x) c2))"

section \<open>Terms the properties are stated in\<close>

definition user_turn :: "string \<Rightarrow> LLMMessage" where
  "user_turn m = \<lparr>role = User, content = JStr m\<rparr>"



text \<open>The text of the tokens handed to \<open>onToken\<close>, concatenated.\<close>

fun token_text :: "callback list \<Rightarrow> string" where
  "token_text [] = []"
| "token_text (OnToken t # cbs) =
     (case js_to_string t of Inr text \<Rightarrow> text | Inl e \<Rightarrow> []) @ token_text cbs"
| "token_text (cb # cbs) = token_text cbs"





fun string_forms :: "jsval list \<Rightarrow> string" where
  "string_forms [] = []"
| "string_forms (c # cs) =
     (case js_to_string c of Inr t \<Rightarrow> t | Inl e \<Rightarrow> []) @ string_forms cs"

text \<open>A thrown \<open>Error\<close> whose \<open>status\<close> is the number 500.\<close>

fun status_500 :: "thrown \<Rightarrow> bool" where
  "status_500 (JsError m status) = (status = JNum ''500'')"
| "status_500 (Thrown v) = False"

text \<open>
  The trace of a call that is retried \<open>k\<close> times: \<open>k\<close> requests each followed by the
  wait, and the last request.
\<close>

definition attempts :: "string \<Rightarrow> jsval \<Rightarrow> nat \<Rightarrow> tool_action list" where
  "attempts n a k = concat (replicate k [Request n a, Delay 1000]) @ [Request n a]"

definition logged :: "tool_action list \<Rightarrow> MCPClient \<Rightarrow> MCPClient" where
  "logged as c = c\<lparr>tool_trace := tool_trace c @ as\<rparr>"

text \<open>
  The upsert of the specification, in its words: replace the existing entry with the
  same identifier if present, otherwise append. It is compared with \<open>update_recent\<close>,
  which is what the program does.
\<close>

definition has_id :: "jsval \<Rightarrow> jsval \<Rightarrow> bool" where
  "has_id ident a = (js_get a ''objectNumber'' = Inr ident)"

fun upsert :: "jsval \<Rightarrow> jsval \<Rightarrow> jsval list \<Rightarrow> jsval list" where
  "upsert ident r [] = [r]"
| "upsert ident r (a # as) = (if has_id ident a then r # as else a # upsert ident r as)"

text \<open>
  A \<open>null\<close> entry stands before the first entry with the identifier (or there is no
  such entry and a \<open>null\<close> one): the search for the identifier throws on it.
\<close>

fun null_before :: "jsval \<Rightarrow> jsval list \<Rightarrow> bool" where
  "null_before ident [] = False"
| "null_before ident (a # as) =
     (a = JNull \<or> a = JUndefined \<or> (\<not> has_id ident a \<and> null_before ident as))"

section \<open>Example data\<close>

definition night_watch_text :: string where
  "night_watch_text = ''{\"objectNumber\":\"SK-C-5\",\"title\":\"The Night Watch\"}''"

definition night_watch :: jsval where
  "night_watch = JObj [(''objectNumber'', JStr ''SK-C-5''), (''title'', JStr ''The Night Watch'')]"

text \<open>\<open>JSON.parse\<close> on the texts the examples below hand to it.\<close>

definition example_parse :: "string \<Rightarrow> jsval option" where
  "example_parse s =
     (if s = ''[]'' then Some (JArr [])
      else if s = ''42'' then Some (JNum ''42'')
      else if s = night_watch_text then Some night_watch
      else None)"

text \<open>
  \<open>JSON.stringify(v, null, 2)\<close> on the values the examples hand to it: numbers, \<open>null\<close>,
  booleans, the empty array and the empty object.
\<close>

definition example_stringify :: "jsval \<Rightarrow> string" where
  "example_stringify v =
     (case v of
        JNum n \<Rightarrow> n
      | JNull \<Rightarrow> ''null''
      | JBool b \<Rightarrow> (if b then ''true'' else ''false'')
      | JArr xs \<Rightarrow> ''[]''
      | _ \<Rightarrow> ''{}'')"

definition example_world :: "(nat \<Rightarrow> thrown + CallToolResult) \<Rightarrow> world" where
  "example_world t =
     \<lparr>tools_call = t,
      claude_create = (\<lambda>k. Inr [TextBlock ''Hello'']),
      claude_stream = (\<lambda>k. if k = 0
         then Inr ([ContentBlockDelta (TextDelta ''Hel''), OtherChunk,
                    ContentBlockDelta (TextDelta ''lo'')], None)
         else Inr ([ContentBlockDelta (TextDelta ''Hel'')], Some (JsError ''aborted'' JUndefined))),
      ollama_fetch = (\<lambda>k. Inl (JsError ''fetch failed'' JUndefined)),
      JSON_parse = example_parse,
      JSON_stringify = example_stringify\<rparr>"







definition text_result :: "string \<Rightarrow> thrown + CallToolResult" where
  "text_result t = Inr (CallToolResult (Some [Item ''text'' t]))"

definition server_error :: "thrown + CallToolResult" where
  "server_error = Inl (JsError ''Internal Server Error'' (JNum ''500''))"

definition example_service :: "LLMProvider \<Rightarrow> llm_service" where
  "example_service p = \<lparr>provider = p, model = ''mistral'', messageHistory = [], sent = []\<rparr>"

definition example_client :: "jsval \<Rightarrow> MCPClient" where
  "example_client cache =
     \<lparr>availableTools = [\<lparr>name = ''search_artwork'', description = None\<rparr>],
      recentArtworks = cache, llm = example_service claude, tool_trace = [], events = []\<rparr>"

section \<open>Lemmas about the services and the invoker\<close>

lemma startsWith_iff: "startsWith s p \<longleftrightarrow> (\<exists>post. s = p @ post)"
  by (induction s p rule: startsWith.induct) auto

text \<open>\<open>includes_str\<close> is the substring relation.\<close>

lemma includes_str_iff: "includes_str s p \<longleftrightarrow> (\<exists>pre post. s = pre @ p @ post)"
proof (induction s)
  case Nil
  then show ?case by auto
next
  case (Cons c cs)
  have "(\<exists>pre post. c # cs = pre @ p @ post) \<longleftrightarrow>
      (\<exists>post. c # cs = p @ post) \<or> (\<exists>pre post. cs = pre @ p @ post)"
  proof
    assume "\<exists>pre post. c # cs = pre @ p @ post"
    then obtain pre post where e: "c # cs = pre @ p @ post" by blast
    show "(\<exists>post. c # cs = p @ post) \<or> (\<exists>pre post. cs = pre @ p @ post)"
    proof (cases pre)
      case Nil
      with e show ?thesis by auto
    next
      case (Cons x xs)
      with e have "cs = xs @ p @ post" by simp
      then show ?thesis by blast
    qed
  next
    assume "(\<exists>post. c # cs = p @ post) \<or> (\<exists>pre post. cs = pre @ p @ post)"
    then show "\<exists>pre post. c # cs = pre @ p @ post"
    proof
      assume "\<exists>post. c # cs = p @ post"
      then obtain post where "c # cs = [] @ p @ post" by auto
      then show ?thesis by blast
    next
      assume "\<exists>pre post. cs = pre @ p @ post"
      then obtain pre post where "c # cs = (c # pre) @ p @ post" by auto
      then show ?thesis by blast
    qed
  qed
  with Cons show ?case by (simp add: startsWith_iff)
qed


lemma token_text_append: "token_text (xs @ ys) = token_text xs @ token_text ys"
  by (induction xs rule: token_text.induct) auto



lemma string_forms_strings: "string_forms (map JStr ts) = concat ts"
  by (induction ts) auto
















lemma streamChat_sent:
  "sent (snd (snd (streamChat w M ctx s))) =
     sent s @ [\<lparr>req_model = (case provider s of ollama \<Rightarrow> model s
                               | claude \<Rightarrow> ''claude-3-opus-20240229''),
                req_messages = messageHistory s @ [user_turn M, user_turn (final_content M ctx)],
                req_stream = True\<rparr>]"
  unfolding streamChat_def OllamaService_streamChat_def ClaudeService_streamChat_def Let_def
    push_user_def push_assistant_def user_turn_def outbound_def
  by (auto split: sum.splits prod.splits option.splits if_splits LLMProvider.splits)

lemma chat_sent:
  "sent (snd (chat w M ctx s)) =
     sent s @ [\<lparr>req_model = (case provider s of ollama \<Rightarrow> model s
                               | claude \<Rightarrow> ''claude-3-opus-20240229''),
                req_messages = messageHistory s @ [user_turn M, user_turn (final_content M ctx)],
                req_stream = False\<rparr>]"
  unfolding chat_def OllamaService_chat_def ClaudeService_chat_def Let_def
    push_user_def push_assistant_def user_turn_def outbound_def
  by (auto split: sum.splits prod.splits option.splits if_splits LLMProvider.splits
      list.splits)

lemma requests_made_log [simp]:
  "requests_made (log_action (Request n a) c) = Suc (requests_made c)"
  "requests_made (log_action (Delay d) c) = requests_made c"
  by (simp_all add: requests_made_def log_action_def)

lemma callTool_ok:
  "try_request w c = Inr v \<Longrightarrow> callTool w n a r c = (Inr v, log_action (Request n a) c)"
  by (subst callTool.simps) simp

lemma callTool_other:
  "try_request w c = Inl e \<Longrightarrow> \<not> status_500 e \<Longrightarrow>
     callTool w n a r c = (Inl e, log_action (Request n a) c)"
  by (subst callTool.simps) (cases e; simp)

lemma callTool_retry:
  "try_request w c = Inl e \<Longrightarrow> status_500 e \<Longrightarrow> r < MAX_RETRIES \<Longrightarrow>
     callTool w n a r c =
       callTool w n a (Suc r) (log_action (Delay RETRY_DELAY) (log_action (Request n a) c))"
  by (subst callTool.simps) (cases e; simp)

lemma callTool_exhausted:
  "try_request w c = Inl e \<Longrightarrow> status_500 e \<Longrightarrow> \<not> r < MAX_RETRIES \<Longrightarrow>
     callTool w n a r c = (Inl retries_exhausted, log_action (Request n a) c)"
  by (subst callTool.simps) (cases e; simp)

lemma logged_log: "logged as (log_action x (log_action y c)) = logged (y # x # as) c"
  by (simp add: logged_def log_action_def)

lemma log_logged: "log_action x c = logged [x] c"
  by (simp add: logged_def log_action_def)

lemma callTool_all_500:
  assumes "\<forall>i. \<exists>e. tools_call w (requests_made c + i) = Inl e \<and> status_500 e"
    and "r \<le> MAX_RETRIES"
  shows "callTool w n a r c = (Inl retries_exhausted, logged (attempts n a (MAX_RETRIES - r)) c)"
  using assms
proof (induction "MAX_RETRIES - r" arbitrary: r c)
  case 0
  from "0.prems"(1) obtain e where e: "tools_call w (requests_made c) = Inl e" "status_500 e"
    by (metis add.right_neutral)
  then have "try_request w c = Inl e" by (simp add: try_request_def)
  with e 0 show ?case
    by (simp add: callTool_exhausted attempts_def log_logged)
next
  case (Suc k)
  from Suc.prems(1) obtain e where e: "tools_call w (requests_made c) = Inl e" "status_500 e"
    by (metis add.right_neutral)
  then have t: "try_request w c = Inl e" by (simp add: try_request_def)
  let ?c = "log_action (Delay RETRY_DELAY) (log_action (Request n a) c)"
  have r: "r < MAX_RETRIES" using Suc.hyps(2) by simp
  have "\<forall>i. \<exists>e. tools_call w (requests_made ?c + i) = Inl e \<and> status_500 e"
    using Suc.prems(1) by (metis requests_made_log add_Suc_shift)
  moreover have "k = MAX_RETRIES - Suc r" using Suc.hyps(2) by simp
  moreover have "Suc r \<le> MAX_RETRIES" using r by simp
  ultimately have "callTool w n a (Suc r) ?c =
      (Inl retries_exhausted, logged (attempts n a (MAX_RETRIES - Suc r)) ?c)"
    using Suc.hyps(1) by blast
  moreover have "MAX_RETRIES - r = Suc (MAX_RETRIES - Suc r)" using r by simp
  ultimately show ?case
    using callTool_retry[OF t e(2) r] by (simp add: logged_log attempts_def RETRY_DELAY_def)
qed

lemma callTool_k_500:
  assumes "\<forall>i<k. \<exists>e. tools_call w (requests_made c + i) = Inl e \<and> status_500 e"
    and "tools_call w (requests_made c + k) = Inr response"
    and "read_response w response = Inr payload"
    and "r + k \<le> MAX_RETRIES"
  shows "callTool w n a r c = (Inr payload, logged (attempts n a k) c)"
  using assms
proof (induction k arbitrary: r c)
  case 0
  then have "try_request w c = Inr payload" by (simp add: try_request_def)
  then show ?case by (simp add: callTool_ok attempts_def log_logged)
next
  case (Suc k)
  from Suc.prems(1) obtain e where e: "tools_call w (requests_made c) = Inl e" "status_500 e"
    by (metis add.right_neutral zero_less_Suc)
  then have t: "try_request w c = Inl e" by (simp add: try_request_def)
  let ?c = "log_action (Delay RETRY_DELAY) (log_action (Request n a) c)"
  have r: "r < MAX_RETRIES" using Suc.prems(4) by simp
  have "\<forall>i<k. \<exists>e. tools_call w (requests_made ?c + i) = Inl e \<and> status_500 e"
    using Suc.prems(1) by (metis requests_made_log add_Suc_shift Suc_less_eq)
  moreover have "tools_call w (requests_made ?c + k) = Inr response" using Suc.prems(2) by simp
  moreover have "Suc r + k \<le> MAX_RETRIES" using Suc.prems(4) by simp
  ultimately have "callTool w n a (Suc r) ?c = (Inr payload, logged (attempts n a k) ?c)"
    using Suc.IH Suc.prems(3) by blast
  then show ?case
    using callTool_retry[OF t e(2) r] by (simp add: logged_log attempts_def RETRY_DELAY_def)
qed

lemma logged_logged: "logged xs (logged ys c) = logged (ys @ xs) c"
  by (simp add: logged_def)

lemma callTool_frame: "\<exists>as. snd (callTool w n a r c) = logged as c"
proof (induction w n a r c rule: callTool.induct)
  case (1 w n a r c)
  show ?case
  proof (cases "try_request w c")
    case (Inr v)
    then show ?thesis by (auto simp: callTool_ok log_logged)
  next
    case (Inl e)
    show ?thesis
    proof (cases "status_500 e \<and> r < MAX_RETRIES")
      case True
      then obtain m where e: "e = JsError m (JNum ''500'')" by (cases e) auto
      from 1[OF refl Inl e] True obtain as where
        "snd (callTool w n a (r + 1) (log_action (Delay RETRY_DELAY) (log_action (Request n a) c)))
           = logged as (log_action (Delay RETRY_DELAY) (log_action (Request n a) c))"
        by auto
      with True Inl show ?thesis
        by (auto simp: callTool_retry log_logged logged_logged)
    next
      case False
      with Inl show ?thesis
        by (cases "status_500 e") (auto simp: callTool_other callTool_exhausted log_logged)
    qed
  qed
qed

lemma callTool_keeps:
  "recentArtworks (snd (callTool w n a r c)) = recentArtworks c"
  "llm (snd (callTool w n a r c)) = llm c"
  "events (snd (callTool w n a r c)) = events c"
  "availableTools (snd (callTool w n a r c)) = availableTools c"
  using callTool_frame[of w n a r c] by (auto simp: logged_def)

lemma join_empty: "sep \<noteq> [] \<Longrightarrow> join sep xs = [] \<longleftrightarrow> xs = [] \<or> xs = [[]]"
  by (induction sep xs rule: join.induct) auto

lemma js_get_throws: "js_get a key = Inl e \<longleftrightarrow> (a = JNull \<or> a = JUndefined) \<and> e = TypeError"
  by (cases a) (auto split: option.splits)

text \<open>
  For an identifier that \<open>===\<close> compares by value, the search either throws on a
  \<open>null\<close> entry, or the update of the cache is the upsert of the specification.
\<close>

lemma findIndex_primitive:
  assumes "is_primitive ident"
  shows "(null_before ident as \<longrightarrow> findIndex as ident origin i = Inl TypeError) \<and>
     (\<not> null_before ident as \<longrightarrow>
        (\<exists>idx. findIndex as ident origin i = Inr idx \<and>
           (case idx of
              None \<Rightarrow> as @ [r] = upsert ident r as
            | Some j \<Rightarrow> i \<le> j \<and> as[j - i := r] = upsert ident r as)))"
proof (induction as arbitrary: i)
  case Nil
  then show ?case by simp
next
  case (Cons a as)
  show ?case
  proof (cases "js_get a ''objectNumber''")
    case (Inl e)
    then show ?thesis by (auto simp: js_get_throws)
  next
    case (Inr v)
    then have n: "a \<noteq> JNull" "a \<noteq> JUndefined" by auto
    show ?thesis
    proof (cases "v = ident")
      case True
      with Inr n assms show ?thesis by (simp add: strict_equal_def has_id_def)
    next
      case False
      with Inr assms have f: "findIndex (a # as) ident origin i = findIndex as ident origin (Suc i)"
        by (simp add: strict_equal_def)
      from False Inr have h: "\<not> has_id ident a" by (simp add: has_id_def)
      show ?thesis
      proof (cases "null_before ident as")
        case True
        with Cons[of "Suc i"] f n h show ?thesis by simp
      next
        case nb: False
        with Cons[of "Suc i"] obtain idx where idx: "findIndex as ident origin (Suc i) = Inr idx"
          "case idx of None \<Rightarrow> as @ [r] = upsert ident r as
             | Some j \<Rightarrow> Suc i \<le> j \<and> as[j - Suc i := r] = upsert ident r as"
          by blast
        show ?thesis
        proof (cases idx)
          case None
          with idx f n h nb show ?thesis by simp
        next
          case (Some j)
          with idx have j: "Suc i \<le> j" "as[j - Suc i := r] = upsert ident r as" by auto
          then have "j - i = Suc (j - Suc i)" by arith
          with j Some idx f n h nb show ?thesis by simp
        qed
      qed
    qed
  qed
qed

lemma update_recent_primitive:
  assumes "is_primitive ident"
  shows "update_recent (JArr as) ident origin r =
     (if null_before ident as then Inl TypeError else Inr (JArr (upsert ident r as)))"
proof (cases "null_before ident as")
  case True
  with findIndex_primitive[OF assms, of as origin 0 r] show ?thesis
    by (simp add: update_recent_def)
next
  case False
  with findIndex_primitive[OF assms, of as origin 0 r] obtain idx where
    "findIndex as ident origin 0 = Inr idx"
    "case idx of None \<Rightarrow> as @ [r] = upsert ident r as
       | Some j \<Rightarrow> 0 \<le> j \<and> as[j - 0 := r] = upsert ident r as"
    by blast
  with False show ?thesis
    by (cases idx) (auto simp: update_recent_def)
qed

lemma findIndex_bound:
  "findIndex as ident origin i = Inr (Some j) \<Longrightarrow> i \<le> j \<and> j < i + length as"
proof (induction as arbitrary: i)
  case Nil
  then show ?case by simp
next
  case (Cons a as)
  then show ?case
    by (fastforce split: sum.splits if_splits)
qed

lemma update_recent_grows:
  "update_recent cache ident origin r = Inr cache' \<Longrightarrow>
     \<exists>as bs. cache = JArr as \<and> cache' = JArr bs \<and> length as \<le> length bs"
  by (auto simp: update_recent_def split: jsval.splits sum.splits option.splits)

lemma length_upsert: "length as \<le> length (upsert ident r as)"
  by (induction as) auto

lemma no_null_before:
  "list_all (\<lambda>a. a \<noteq> JNull \<and> a \<noteq> JUndefined) as \<Longrightarrow> \<not> null_before ident as"
  by (induction as) auto

lemma upsert_one:
  "has_id ident r \<Longrightarrow> length (filter (has_id ident) as) \<le> 1 \<Longrightarrow>
     filter (has_id ident) (upsert ident r as) = [r]"
  by (induction as) (auto split: if_splits)

lemma upsert_no_null:
  "has_id ident r \<Longrightarrow> list_all (\<lambda>a. a \<noteq> JNull \<and> a \<noteq> JUndefined) as \<Longrightarrow>
     list_all (\<lambda>a. a \<noteq> JNull \<and> a \<noteq> JUndefined) (upsert ident r as)"
  by (induction as) (auto simp: has_id_def)

lemma getArtworkDetails_cache:
  "recentArtworks (getArtworkDetails w ident origin c) =
     (case fst (callTool w ''get_artwork_details'' (JObj [(''objectNumber'', ident)]) 0 c) of
        Inl e \<Rightarrow> recentArtworks c
      | Inr r \<Rightarrow>
          (case update_recent (recentArtworks c) ident origin r of
             Inl e \<Rightarrow> recentArtworks c
           | Inr cache \<Rightarrow> cache))"
proof -
  let ?call = "callTool w ''get_artwork_details'' (JObj [(''objectNumber'', ident)]) 0 c"
  have k: "recentArtworks (snd ?call) = recentArtworks c" by (rule callTool_keeps)
  show ?thesis
    using k by (cases ?call) (auto simp: getArtworkDetails_def send_def split: sum.splits)
qed

section \<open>Lemmas about the assembler and the processing of a message\<close>

lemma send_keeps [simp]:
  "llm (send e c) = llm c" "recentArtworks (send e c) = recentArtworks c"
  "availableTools (send e c) = availableTools c" "tool_trace (send e c) = tool_trace c"
  by (simp_all add: send_def)

lemma getArtworkDetails_llm: "llm (getArtworkDetails w i origin c) = llm c"
proof -
  let ?call = "callTool w ''get_artwork_details'' (JObj [(''objectNumber'', i)]) 0 c"
  have "llm (snd ?call) = llm c" by (rule callTool_keeps)
  then show ?thesis
    by (cases ?call) (auto simp: getArtworkDetails_def split: sum.splits)
qed

lemma openImageInBrowser_llm: "llm (openImageInBrowser w u c) = llm c"
  by (simp add: openImageInBrowser_def callTool_keeps)

lemma details_action_llm: "llm (snd (details_action w m c)) = llm c"
  by (auto simp: details_action_def getArtworkDetails_llm split: option.splits sum.splits
      prod.splits)

lemma extractAndExecuteActions_llm: "llm (snd (extractAndExecuteActions w m c)) = llm c"
  by (auto simp: extractAndExecuteActions_def Let_def details_action_llm openImageInBrowser_llm
      split: option.splits sum.splits prod.splits)

lemma context_loop_llm: "llm (snd (context_loop w m tools c)) = llm c"
proof (induction tools)
  case Nil
  then show ?case by simp
next
  case (Cons tool tools)
  let ?call = "callTool w (name tool) (extractToolArgs m tool) 0 c"
  have "llm (snd ?call) = llm c" by (rule callTool_keeps)
  with Cons show ?case
    by (cases ?call) (auto split: sum.splits)
qed

lemma getRelevantContext_llm: "llm (snd (getRelevantContext w m c)) = llm c"
  by (simp add: getRelevantContext_def context_loop_llm)

lemma context_loop_skip:
  "\<forall>t\<in>set pre. matchesToolIntent message t = Inr False \<Longrightarrow>
     context_loop w message (pre @ rest) c = context_loop w message rest c"
  by (induction pre) auto

lemma context_loop_none:
  "\<forall>t\<in>set tools. matchesToolIntent message t = Inr False \<Longrightarrow>
     context_loop w message tools c = (None, c)"
  using context_loop_skip[of tools message w "[]" c] by simp

text \<open>
  The first tool that matches is the one called, when no tool before it makes the
  matcher throw.
\<close>

lemma first_match_is_called:
  assumes "availableTools c = pre @ tool # post"
    and "\<forall>t\<in>set pre. matchesToolIntent message t = Inr False"
    and "matchesToolIntent message tool = Inr True"
  shows "getRelevantContext w message c =
     (case callTool w (name tool) (extractToolArgs message tool) 0 c of
        (Inl e, c1) \<Rightarrow> (Some apology, c1)
      | (Inr result, c1) \<Rightarrow>
          (case format_result w (name tool) result of
             Inl e \<Rightarrow> (Some apology, c1)
           | Inr rendering \<Rightarrow> (Some rendering, c1)))"
  using assms by (simp add: getRelevantContext_def context_loop_skip)

text \<open>
  A tool whose name is not inherited from \<open>Object.prototype\<close> matches exactly when one
  of the trigger phrases listed for its name occurs in the lower-cased message.
\<close>

lemma matchesToolIntent_triggers:
  assumes "name tool \<notin> set Object_prototype"
  shows "matchesToolIntent message tool =
     Inr (\<exists>triggers. map_of toolTriggers (name tool) = Some triggers \<and>
            (\<exists>trigger\<in>set triggers. includes_str (toLowerCase message) trigger))"
  using assms
  by (auto simp: matchesToolIntent_def Let_def list_ex_iff split: option.splits)

lemma no_trigger_no_context:
  assumes "\<forall>t\<in>set (availableTools c). name t \<notin> set Object_prototype"
    and "\<forall>t\<in>set (availableTools c). \<forall>triggers. map_of toolTriggers (name t) = Some triggers \<longrightarrow>
           (\<forall>trigger\<in>set triggers. \<not> includes_str (toLowerCase message) trigger)"
  shows "getRelevantContext w message c = (None, c)"
proof -
  have "\<forall>t\<in>set (availableTools c). matchesToolIntent message t = Inr False"
    using assms by (auto simp: matchesToolIntent_triggers)
  then show ?thesis by (simp add: getRelevantContext_def context_loop_none)
qed

lemma callTool_trace_head:
  "\<exists>rest. tool_trace (snd (callTool w n a r c)) = tool_trace c @ Request n a # rest"
proof (cases "try_request w c")
  case (Inr v)
  then show ?thesis by (simp add: callTool_ok log_action_def)
next
  case (Inl e)
  show ?thesis
  proof (cases "status_500 e")
    case False
    with Inl show ?thesis by (simp add: callTool_other log_action_def)
  next
    case True
    show ?thesis
    proof (cases "r < MAX_RETRIES")
      case False
      with Inl True show ?thesis by (simp add: callTool_exhausted log_action_def)
    next
      case r: True
      let ?c = "log_action (Delay RETRY_DELAY) (log_action (Request n a) c)"
      from callTool_frame[of w n a "Suc r" ?c] obtain as where
        "snd (callTool w n a (Suc r) ?c) = logged as ?c" by blast
      with Inl True r show ?thesis
        by (simp add: callTool_retry logged_def log_action_def)
    qed
  qed
qed

lemma find_sunflowers_table:
  "list_all (\<lambda>(n, triggers).
       list_ex (\<lambda>trigger. includes_str (toLowerCase ''find sunflowers'') trigger) triggers =
       (n = ''search_artwork'')) toolTriggers"
  by code_simp

lemma find_sunflowers_matches:
  assumes "name tool \<notin> set Object_prototype"
  shows "matchesToolIntent ''find sunflowers'' tool = Inr (name tool = ''search_artwork'')"
proof (cases "map_of toolTriggers (name tool)")
  case None
  have "map_of toolTriggers ''search_artwork'' \<noteq> None" by (simp add: toolTriggers_def)
  with None have "name tool \<noteq> ''search_artwork''" by auto
  with None assms show ?thesis by (simp add: matchesToolIntent_def)
next
  case (Some triggers)
  then have "(name tool, triggers) \<in> set toolTriggers" by (rule map_of_SomeD)
  with find_sunflowers_table
  have "list_ex (\<lambda>trigger. includes_str (toLowerCase ''find sunflowers'') trigger) triggers =
       (name tool = ''search_artwork'')"
    by (auto simp: list_all_iff)
  with Some show ?thesis by (simp add: matchesToolIntent_def)
qed

lemma find_sunflowers_query: "searchQuery ''find sunflowers'' = ''sunflowers''"
  by code_simp

lemma sunflowers_no_objectNumber: "re_match re_objectNumber ''sunflowers'' = None"
  by code_simp

lemma find_sunflowers_args:
  "name tool = ''search_artwork'' \<Longrightarrow>
     extractToolArgs ''find sunflowers'' tool =
       JObj [(''query'', JStr ''sunflowers''), (''pageSize'', JNum ''10''),
             (''imgonly'', JBool True), (''s'', JStr ''relevance'')]"
  by (simp add: extractToolArgs_def find_sunflowers_query sunflowers_no_objectNumber)

section \<open>The retry policy of the tool invoker\<close>

text \<open>
  C1. A call starts with \<open>retryCount = 0\<close>. If every request on the transport fails with
  an \<open>Error\<close> of status 500, the call makes exactly four requests, waits 1000 ms before
  each of the three retries, and fails with the retry-exhaustion error. If the first
  request fails in any other way (another status, no status, a thrown value that is not
  an \<open>Error\<close>), the call makes that one request and the failure propagates as it is. If
  the first \<open>k \<le> 3\<close> requests fail with status 500 and the next one is answered with a
  response that reads as \<open>payload\<close>, the call returns \<open>payload\<close>, after \<open>k\<close> waits.
\<close>

theorem callTool_retry_policy:
  "((\<forall>i. \<exists>e. tools_call w (requests_made c + i) = Inl e \<and> status_500 e) \<longrightarrow>
      callTool w n a 0 c =
        (Inl (JsError ''Server error (500) after 3 retries. The Rijksmuseum API might be experiencing issues.'' JUndefined),
         logged [Request n a, Delay 1000, Request n a, Delay 1000, Request n a, Delay 1000,
                 Request n a] c) \<and>
      requests_made (snd (callTool w n a 0 c)) = requests_made c + 4) \<and>
   (\<forall>e. tools_call w (requests_made c) = Inl e \<and> \<not> status_500 e \<longrightarrow>
      callTool w n a 0 c = (Inl e, logged [Request n a] c) \<and>
      requests_made (snd (callTool w n a 0 c)) = requests_made c + 1) \<and>
   (\<forall>k response payload.
      k \<le> 3 \<and> (\<forall>i<k. \<exists>e. tools_call w (requests_made c + i) = Inl e \<and> status_500 e) \<and>
      tools_call w (requests_made c + k) = Inr response \<and>
      read_response w response = Inr payload \<longrightarrow>
      callTool w n a 0 c = (Inr payload, logged (attempts n a k) c))"
proof (intro conjI impI allI)
  assume "\<forall>i. \<exists>e. tools_call w (requests_made c + i) = Inl e \<and> status_500 e"
  then have "callTool w n a 0 c = (Inl retries_exhausted, logged (attempts n a (MAX_RETRIES - 0)) c)"
    by (intro callTool_all_500) simp_all
  moreover have "attempts n a 3 = [Request n a, Delay 1000, Request n a, Delay 1000,
      Request n a, Delay 1000, Request n a]"
    by (simp add: attempts_def eval_nat_numeral)
  moreover have "nat_to_string 3 = ''3''"
    by code_simp
  ultimately have r: "callTool w n a 0 c =
        (Inl (JsError ''Server error (500) after 3 retries. The Rijksmuseum API might be experiencing issues.'' JUndefined),
         logged [Request n a, Delay 1000, Request n a, Delay 1000, Request n a, Delay 1000,
                 Request n a] c)"
    by (simp add: retries_exhausted_def MAX_RETRIES_def)
  then show "callTool w n a 0 c =
        (Inl (JsError ''Server error (500) after 3 retries. The Rijksmuseum API might be experiencing issues.'' JUndefined),
         logged [Request n a, Delay 1000, Request n a, Delay 1000, Request n a, Delay 1000,
                 Request n a] c)" .
  from r show "requests_made (snd (callTool w n a 0 c)) = requests_made c + 4"
    by (simp add: requests_made_def logged_def)
next
  fix e
  assume "tools_call w (requests_made c) = Inl e \<and> \<not> status_500 e"
  then have "try_request w c = Inl e" "\<not> status_500 e"
    by (simp_all add: try_request_def)
  then have r: "callTool w n a 0 c = (Inl e, logged [Request n a] c)"
    by (simp add: callTool_other log_logged)
  then show "callTool w n a 0 c = (Inl e, logged [Request n a] c)" .
  from r show "requests_made (snd (callTool w n a 0 c)) = requests_made c + 1"
    by (simp add: requests_made_def logged_def)
next
  fix k response payload
  assume h: "k \<le> 3 \<and> (\<forall>i<k. \<exists>e. tools_call w (requests_made c + i) = Inl e \<and> status_500 e) \<and>
      tools_call w (requests_made c + k) = Inr response \<and>
      read_response w response = Inr payload"
  then have "0 + k \<le> MAX_RETRIES" by (simp add: MAX_RETRIES_def)
  with h show "callTool w n a 0 c = (Inr payload, logged (attempts n a k) c)"
    by (intro callTool_k_500[where response = response]) blast+
qed

theorem callTool_retry_policy_witness:
  "callTool (example_world (\<lambda>k. server_error)) ''search_artwork'' (JObj []) 0
       (example_client (JArr [])) =
     (Inl (JsError ''Server error (500) after 3 retries. The Rijksmuseum API might be experiencing issues.'' JUndefined),
      logged [Request ''search_artwork'' (JObj []), Delay 1000,
              Request ''search_artwork'' (JObj []), Delay 1000,
              Request ''search_artwork'' (JObj []), Delay 1000,
              Request ''search_artwork'' (JObj [])] (example_client (JArr []))) \<and>
   callTool (example_world (\<lambda>k. Inl (JsError ''Not Found'' (JNum ''404''))))
       ''search_artwork'' (JObj []) 0 (example_client (JArr [])) =
     (Inl (JsError ''Not Found'' (JNum ''404'')),
      logged [Request ''search_artwork'' (JObj [])] (example_client (JArr []))) \<and>
   callTool (example_world (\<lambda>k. if k < 3 then server_error else text_result ''42''))
       ''search_artwork'' (JObj []) 0 (example_client (JArr [])) =
     (Inr (JNum ''42''),
      logged [Request ''search_artwork'' (JObj []), Delay 1000,
              Request ''search_artwork'' (JObj []), Delay 1000,
              Request ''search_artwork'' (JObj []), Delay 1000,
              Request ''search_artwork'' (JObj [])] (example_client (JArr [])))"
proof -
  let ?c = "example_client (JArr [])"
  let ?n = "''search_artwork''"
  have made: "requests_made ?c = 0"
    by (simp add: requests_made_def example_client_def)
  have a: "\<forall>i. \<exists>e. tools_call (example_world (\<lambda>k. server_error)) (requests_made ?c + i) = Inl e
      \<and> status_500 e"
    by (simp add: example_world_def server_error_def)
  have b: "tools_call (example_world (\<lambda>k. Inl (JsError ''Not Found'' (JNum ''404''))))
       (requests_made ?c) = Inl (JsError ''Not Found'' (JNum ''404'')) \<and>
      \<not> status_500 (JsError ''Not Found'' (JNum ''404''))"
    by (simp add: example_world_def)
  let ?w = "example_world (\<lambda>k. if k < 3 then server_error else text_result ''42'')"
  have c: "(3::nat) \<le> 3 \<and> (\<forall>i<3. \<exists>e. tools_call ?w (requests_made ?c + i) = Inl e \<and> status_500 e) \<and>
      tools_call ?w (requests_made ?c + 3) = Inr (CallToolResult (Some [Item ''text'' ''42''])) \<and>
      read_response ?w (CallToolResult (Some [Item ''text'' ''42''])) = Inr (JNum ''42'')"
    by (simp add: made example_world_def server_error_def text_result_def read_response_def
        textContent_def example_parse_def)
  have t: "attempts ?n (JObj []) 3 = [Request ?n (JObj []), Delay 1000,
      Request ?n (JObj []), Delay 1000, Request ?n (JObj []), Delay 1000, Request ?n (JObj [])]"
    by (simp add: attempts_def eval_nat_numeral)
  note p1 = callTool_retry_policy[of "example_world (\<lambda>k. server_error)" ?c ?n "JObj []",
      THEN conjunct1, rule_format, OF a[rule_format]]
  note p2 = callTool_retry_policy[of
      "example_world (\<lambda>k. Inl (JsError ''Not Found'' (JNum ''404'')))" ?c ?n "JObj []",
      THEN conjunct2, THEN conjunct1, rule_format, OF b]
  note p3 = callTool_retry_policy[of ?w ?c ?n "JObj []",
      THEN conjunct2, THEN conjunct2, rule_format, OF c]
  show ?thesis
    using p1[THEN conjunct1] p2[THEN conjunct1] p3 by (simp only: t)
qed

section \<open>The intent matcher on a tool named after an inherited property\<close>

text \<open>
  C2 holds for a registry in which no tool is named after a property of
  \<open>Object.prototype\<close> (lemmas \<open>first_match_is_called\<close>, \<open>matchesToolIntent_triggers\<close>,
  \<open>no_trigger_no_context\<close> and \<open>includes_str_iff\<close>). On a tool named \<open>constructor\<close> the
  matcher throws, whatever
  the message: for the message \<open>hello\<close>, in which no trigger phrase occurs, the
  assembler returns the error notice as context instead of none, and the processing of
  the message sends that notice to the user as the response.
\<close>

theorem inherited_tool_name_breaks_matcher:
  "matchesToolIntent ''hello'' \<lparr>name = ''constructor'', description = None\<rparr> = Inl TypeError \<and>
   getRelevantContext w ''hello''
       (c\<lparr>availableTools := [\<lparr>name = ''constructor'', description = None\<rparr>]\<rparr>) =
     (Some error_notice, c\<lparr>availableTools := [\<lparr>name = ''constructor'', description = None\<rparr>]\<rparr>) \<and>
   events (processMessage w ''hello''
       ((example_client (JArr []))\<lparr>availableTools :=
           [\<lparr>name = ''constructor'', description = None\<rparr>]\<rparr>)) =
     [chat_token (JStr error_notice), chat_complete (JStr error_notice)]"
proof -
  let ?tool = "\<lparr>name = ''constructor'', description = None\<rparr>"
  let ?c = "(example_client (JArr []))\<lparr>availableTools := [?tool]\<rparr>"
  have m: "matchesToolIntent ''hello'' ?tool = Inl TypeError"
    by code_simp
  have g: "\<And>c. getRelevantContext w ''hello'' (c\<lparr>availableTools := [?tool]\<rparr>) =
      (Some error_notice, c\<lparr>availableTools := [?tool]\<rparr>)"
    by (simp add: getRelevantContext_def m)
  have a: "extractAndExecuteActions w ''hello'' ?c = (Inr None, ?c)"
    by code_simp
  have e: "is_error_context error_notice"
    by code_simp
  have "processMessage w ''hello'' ?c =
      send (chat_complete (JStr error_notice)) (send (chat_token (JStr error_notice)) ?c)"
    by (simp add: processMessage_def a g e)
  then have "events (processMessage w ''hello'' ?c) =
      [chat_token (JStr error_notice), chat_complete (JStr error_notice)]"
    by (simp add: send_def example_client_def)
  with m g show ?thesis by simp
qed

section \<open>An error context is the response\<close>

text \<open>
  C3. When the direct actions return and the context built for the message contains
  \<open>apologize\<close> or \<open>encountered an error\<close>, the processing of the message ends by sending
  the context as a token and then as the complete response, and the service of the
  language model is left as it was before the message: no turn is added to its history
  and no request is issued to its backend.
\<close>

theorem error_context_is_the_response:
  "extractAndExecuteActions w message c = (Inr actionResult, c1) \<and>
   getRelevantContext w message c1 = (Some x, c2) \<and>
   (includes_str x ''apologize'' \<or> includes_str x ''encountered an error'') \<longrightarrow>
     processMessage w message c =
       c2\<lparr>events := events c2 @ [chat_token (JStr x), chat_complete (JStr x)]\<rparr> \<and>
     llm (processMessage w message c) = llm c \<and>
     sent (llm (processMessage w message c)) = sent (llm c)"
proof (intro impI)
  assume h: "extractAndExecuteActions w message c = (Inr actionResult, c1) \<and>
   getRelevantContext w message c1 = (Some x, c2) \<and>
   (includes_str x ''apologize'' \<or> includes_str x ''encountered an error'')"
  then have p: "processMessage w message c =
       c2\<lparr>events := events c2 @ [chat_token (JStr x), chat_complete (JStr x)]\<rparr>"
    by (simp add: processMessage_def is_error_context_def send_def)
  have "llm c1 = llm c"
    using extractAndExecuteActions_llm[of w message c] h by simp
  moreover have "llm c2 = llm c1"
    using getRelevantContext_llm[of w message c1] h by simp
  ultimately show "processMessage w message c =
       c2\<lparr>events := events c2 @ [chat_token (JStr x), chat_complete (JStr x)]\<rparr> \<and>
     llm (processMessage w message c) = llm c \<and>
     sent (llm (processMessage w message c)) = sent (llm c)"
    using p by simp
qed

theorem error_context_is_the_response_witness:
  "events (processMessage (example_world (\<lambda>k. Inl (JsError ''Not Found'' (JNum ''404''))))
       ''find sunflowers'' (example_client (JArr []))) =
     [chat_token (JStr apology), chat_complete (JStr apology)] \<and>
   sent (llm (processMessage (example_world (\<lambda>k. Inl (JsError ''Not Found'' (JNum ''404''))))
       ''find sunflowers'' (example_client (JArr [])))) = []"
proof -
  let ?w = "example_world (\<lambda>k. Inl (JsError ''Not Found'' (JNum ''404'')))"
  let ?c = "example_client (JArr [])"
  let ?args = "JObj [(''query'', JStr ''sunflowers''), (''pageSize'', JNum ''10''),
                     (''imgonly'', JBool True), (''s'', JStr ''relevance'')]"
  have a: "extractAndExecuteActions ?w ''find sunflowers'' ?c = (Inr None, ?c)"
    by code_simp
  have g: "getRelevantContext ?w ''find sunflowers'' ?c =
      (Some apology, logged [Request ''search_artwork'' ?args] ?c)"
    by code_simp
  have i: "includes_str apology ''apologize''"
    by code_simp
  from error_context_is_the_response[of ?w "''find sunflowers''" ?c None ?c apology
      "logged [Request ''search_artwork'' ?args] ?c"] a g i
  have "processMessage ?w ''find sunflowers'' ?c =
       (logged [Request ''search_artwork'' ?args] ?c)\<lparr>events :=
          events (logged [Request ''search_artwork'' ?args] ?c) @
          [chat_token (JStr apology), chat_complete (JStr apology)]\<rparr> \<and>
     llm (processMessage ?w ''find sunflowers'' ?c) = llm ?c \<and>
     sent (llm (processMessage ?w ''find sunflowers'' ?c)) = sent (llm ?c)"
    by blast
  then show ?thesis
    by (simp add: logged_def example_client_def example_service_def)
qed

section \<open>Reading the response envelope\<close>

text \<open>
  C4, as the program has it. When the transport answers a request with a response, the
  call reads it at once, whatever the retry count: the texts of the items of type
  \<open>text\<close> are joined by newlines; if the joined text is empty, which is so exactly when
  there is no content array, no item of type \<open>text\<close>, or one such item with empty text,
  the call fails with the error \<open>Invalid response format from server\<close>; otherwise it
  returns what \<open>JSON.parse\<close> makes of the joined text, and the joined text itself when
  that fails to parse.
\<close>

theorem callTool_reads_response:
  "invalid_response = JsError ''Invalid response format from server'' JUndefined \<and>
   (tools_call w (requests_made c) = Inr response \<longrightarrow>
    callTool w n a r c =
      (case result_content response of
         None \<Rightarrow> (Inl invalid_response, logged [Request n a] c)
       | Some items \<Rightarrow>
           (let texts = map item_text (filter (\<lambda>item. item_type item = ''text'') items)
            in if texts = [] \<or> texts = [[]]
               then (Inl invalid_response, logged [Request n a] c)
               else (case JSON_parse w (join [CHR 0x0A] texts) of
                       Some v \<Rightarrow> (Inr v, logged [Request n a] c)
                     | None \<Rightarrow> (Inr (JStr (join [CHR 0x0A] texts)), logged [Request n a] c)))))"
proof (intro conjI impI)
  show "invalid_response = JsError ''Invalid response format from server'' JUndefined"
    by (simp add: invalid_response_def)
next
  assume t: "tools_call w (requests_made c) = Inr response"
  then have tr: "try_request w c = read_response w response"
    by (simp add: try_request_def)
  have inv: "\<not> status_500 invalid_response" by (simp add: invalid_response_def)
  show "callTool w n a r c =
      (case result_content response of
         None \<Rightarrow> (Inl invalid_response, logged [Request n a] c)
       | Some items \<Rightarrow>
           (let texts = map item_text (filter (\<lambda>item. item_type item = ''text'') items)
            in if texts = [] \<or> texts = [[]]
               then (Inl invalid_response, logged [Request n a] c)
               else (case JSON_parse w (join [CHR 0x0A] texts) of
                       Some v \<Rightarrow> (Inr v, logged [Request n a] c)
                     | None \<Rightarrow> (Inr (JStr (join [CHR 0x0A] texts)), logged [Request n a] c))))"
  proof (cases "result_content response")
    case None
    then have "try_request w c = Inl invalid_response"
      by (simp add: tr read_response_def)
    with inv None show ?thesis by (simp add: callTool_other log_logged)
  next
    case (Some items)
    let ?texts = "map item_text (filter (\<lambda>item. item_type item = ''text'') items)"
    have e: "textContent items = [] \<longleftrightarrow> ?texts = [] \<or> ?texts = [[]]"
      unfolding textContent_def by (rule join_empty) simp
    show ?thesis
    proof (cases "textContent items = []")
      case True
      then have "try_request w c = Inl invalid_response"
        by (simp add: tr read_response_def Some)
      with inv Some True e show ?thesis by (simp add: callTool_other log_logged Let_def)
    next
      case False
      show ?thesis
      proof (cases "JSON_parse w (textContent items)")
        case None
        with False have "try_request w c = Inr (JStr (textContent items))"
          by (simp add: tr read_response_def Some)
        then have "callTool w n a r c = (Inr (JStr (textContent items)), logged [Request n a] c)"
          by (simp add: callTool_ok log_logged)
        with False None e Some show ?thesis by (simp add: Let_def textContent_def)
      next
        case (Some v)
        with False have "try_request w c = Inr v"
          by (simp add: tr read_response_def \<open>result_content response = Some items\<close>)
        then have "callTool w n a r c = (Inr v, logged [Request n a] c)"
          by (simp add: callTool_ok log_logged)
        with False Some e \<open>result_content response = Some items\<close> show ?thesis
          by (simp add: Let_def textContent_def)
      qed
    qed
  qed
qed

theorem callTool_reads_response_witness:
  "callTool (example_world (\<lambda>k. text_result ''42'')) ''search_artwork'' (JObj []) 0
     (example_client (JArr [])) =
   (Inr (JNum ''42''), logged [Request ''search_artwork'' (JObj [])] (example_client (JArr [])))"
proof -
  let ?w = "example_world (\<lambda>k. text_result ''42'')"
  have t: "tools_call ?w (requests_made (example_client (JArr []))) =
      Inr (CallToolResult (Some [Item ''text'' ''42'']))"
    by (simp add: example_world_def text_result_def)
  show ?thesis
    using callTool_reads_response[of ?w "example_client (JArr [])"
        "CallToolResult (Some [Item ''text'' ''42''])" "''search_artwork''" "JObj []" 0,
        THEN conjunct2, rule_format, OF t]
    by (simp add: example_world_def example_parse_def)
qed

text \<open>
  The claim as it is written fails on a response whose only text is empty text in two
  items: the joined text is one newline, and the call returns it.
\<close>

theorem empty_texts_counterexample:
  "list_all (\<lambda>item. item_type item = ''text'' \<and> item_text item = [])
     [Item ''text'' [], Item ''text'' []] \<and>
   fst (callTool (example_world (\<lambda>k. Inr (CallToolResult (Some [Item ''text'' [], Item ''text'' []]))))
          ''search_artwork'' (JObj []) 0 (example_client (JArr []))) = Inr (JStr [CHR 0x0A])"
  by (simp add: callTool.simps try_request_def read_response_def textContent_def
      example_world_def example_parse_def night_watch_text_def)

section \<open>Turn history of the language-model services\<close>



section \<open>The scenario \<open>find sunflowers\<close>\<close>

text \<open>
  C6. The tool \<open>search_artwork\<close> matches the message \<open>find sunflowers\<close>, and the
  arguments extracted for it are \<open>query: "sunflowers"\<close>, \<open>pageSize: 10\<close>,
  \<open>imgonly: true\<close>, \<open>s: "relevance"\<close>, in this order. Against every registry that holds
  a tool named \<open>search_artwork\<close> and no tool named after a property of
  \<open>Object.prototype\<close>, the first request the assembler sends for this message calls
  \<open>search_artwork\<close> with these arguments.
\<close>

theorem find_sunflowers:
  "matchesToolIntent ''find sunflowers'' \<lparr>name = ''search_artwork'', description = d\<rparr> = Inr True \<and>
   extractToolArgs ''find sunflowers'' \<lparr>name = ''search_artwork'', description = d\<rparr> =
     JObj [(''query'', JStr ''sunflowers''), (''pageSize'', JNum ''10''),
           (''imgonly'', JBool True), (''s'', JStr ''relevance'')] \<and>
   ((\<exists>t\<in>set (availableTools c). name t = ''search_artwork'') \<and>
    (\<forall>t\<in>set (availableTools c). name t \<notin> set Object_prototype) \<longrightarrow>
    (\<exists>rest. tool_trace (snd (getRelevantContext w ''find sunflowers'' c)) =
       tool_trace c @
       Request ''search_artwork''
         (JObj [(''query'', JStr ''sunflowers''), (''pageSize'', JNum ''10''),
                (''imgonly'', JBool True), (''s'', JStr ''relevance'')]) # rest))"
proof (intro conjI impI)
  have "name \<lparr>name = ''search_artwork'', description = d\<rparr> \<notin> set Object_prototype"
    by (simp add: Object_prototype_def)
  then show "matchesToolIntent ''find sunflowers'' \<lparr>name = ''search_artwork'', description = d\<rparr>
      = Inr True"
    by (simp add: find_sunflowers_matches)
next
  show "extractToolArgs ''find sunflowers'' \<lparr>name = ''search_artwork'', description = d\<rparr> =
     JObj [(''query'', JStr ''sunflowers''), (''pageSize'', JNum ''10''),
           (''imgonly'', JBool True), (''s'', JStr ''relevance'')]"
    by (simp add: find_sunflowers_args)
next
  let ?args = "JObj [(''query'', JStr ''sunflowers''), (''pageSize'', JNum ''10''),
                     (''imgonly'', JBool True), (''s'', JStr ''relevance'')]"
  assume h: "(\<exists>t\<in>set (availableTools c). name t = ''search_artwork'') \<and>
    (\<forall>t\<in>set (availableTools c). name t \<notin> set Object_prototype)"
  then obtain pre tool post where s: "availableTools c = pre @ tool # post"
    "name tool = ''search_artwork''" "\<forall>t\<in>set pre. name t \<noteq> ''search_artwork''"
    using split_list_first_prop[of "availableTools c" "\<lambda>t. name t = ''search_artwork''"]
    by blast
  from s h have pre: "\<forall>t\<in>set pre. matchesToolIntent ''find sunflowers'' t = Inr False"
    by (auto simp: find_sunflowers_matches)
  from s h have tool: "matchesToolIntent ''find sunflowers'' tool = Inr True"
    by (auto simp: find_sunflowers_matches)
  let ?call = "callTool w ''search_artwork'' ?args 0 c"
  have g: "snd (getRelevantContext w ''find sunflowers'' c) = snd ?call"
    using first_match_is_called[OF s(1) pre tool, of w] s(2)
    by (cases ?call) (auto simp: find_sunflowers_args split: sum.splits)
  show "\<exists>rest. tool_trace (snd (getRelevantContext w ''find sunflowers'' c)) =
       tool_trace c @ Request ''search_artwork'' ?args # rest"
    unfolding g by (rule callTool_trace_head)
qed

theorem find_sunflowers_witness:
  "\<exists>rest. tool_trace (snd (getRelevantContext (example_world (\<lambda>k. text_result ''[]''))
       ''find sunflowers'' (example_client (JArr [])))) =
     Request ''search_artwork''
       (JObj [(''query'', JStr ''sunflowers''), (''pageSize'', JNum ''10''),
              (''imgonly'', JBool True), (''s'', JStr ''relevance'')]) # rest"
proof -
  let ?c = "example_client (JArr [])"
  have h: "(\<exists>t\<in>set (availableTools ?c). name t = ''search_artwork'') \<and>
    (\<forall>t\<in>set (availableTools ?c). name t \<notin> set Object_prototype)"
    by (simp add: example_client_def Object_prototype_def)
  from find_sunflowers[of None ?c "example_world (\<lambda>k. text_result ''[]'')",
      THEN conjunct2, THEN conjunct2, rule_format, OF h]
  show ?thesis by (simp add: example_client_def)
qed

section \<open>Mutations of the recent-result cache\<close>

text \<open>
  C7, as the program has it. \<open>searchArtworks\<close> replaces the cache by the response of a
  successful search, whatever the cache held, and leaves it as it is when the search
  fails. \<open>getArtworkDetails\<close> leaves the cache as it is when its call fails, when the
  cache is not an array, and when the search for the requested object number throws on a
  \<open>null\<close> entry; otherwise it puts the response of the call in the place of the first
  entry whose object number is the requested one, or at the end when there is none. So
  it never makes an array shorter. For an object number that \<open>===\<close> compares by value
  (a string, as the signature says, or another primitive) this is the upsert of the
  specification under that number. When moreover the array has no \<open>null\<close> entry and at
  most one entry with the number, and both responses carry the number, two such calls in
  a row leave exactly one entry with it, the second response.
\<close>

theorem cache_mutations:
  "recentArtworks (searchArtworks w q c) =
     (case fst (callTool w ''search_artwork''
                  (JObj [(''query'', JStr q), (''pageSize'', JNum ''10'')]) 0 c) of
        Inr response \<Rightarrow> response
      | Inl e \<Rightarrow> recentArtworks c) \<and>
   recentArtworks (getArtworkDetails w ident origin c) =
     (case fst (callTool w ''get_artwork_details'' (JObj [(''objectNumber'', ident)]) 0 c) of
        Inl e \<Rightarrow> recentArtworks c
      | Inr r \<Rightarrow>
          (case recentArtworks c of
             JArr as \<Rightarrow>
               (case findIndex as ident origin 0 of
                  Inl e \<Rightarrow> JArr as
                | Inr None \<Rightarrow> JArr (as @ [r])
                | Inr (Some i) \<Rightarrow> JArr (as[i := r]))
           | other \<Rightarrow> other)) \<and>
   (\<forall>as. recentArtworks c = JArr as \<longrightarrow>
      (\<exists>bs. recentArtworks (getArtworkDetails w ident origin c) = JArr bs \<and>
         length as \<le> length bs)) \<and>
   (\<forall>as r. is_primitive ident \<and> recentArtworks c = JArr as \<and>
      fst (callTool w ''get_artwork_details'' (JObj [(''objectNumber'', ident)]) 0 c) = Inr r \<longrightarrow>
      recentArtworks (getArtworkDetails w ident origin c) =
        (if null_before ident as then JArr as else JArr (upsert ident r as))) \<and>
   (\<forall>as r1 r2. is_primitive ident \<and> recentArtworks c = JArr as \<and>
      list_all (\<lambda>a. a \<noteq> JNull \<and> a \<noteq> JUndefined) as \<and>
      length (filter (has_id ident) as) \<le> 1 \<and>
      fst (callTool w ''get_artwork_details'' (JObj [(''objectNumber'', ident)]) 0 c) = Inr r1 \<and>
      has_id ident r1 \<and>
      fst (callTool w ''get_artwork_details'' (JObj [(''objectNumber'', ident)]) 0
             (getArtworkDetails w ident origin c)) = Inr r2 \<and>
      has_id ident r2 \<longrightarrow>
      (\<exists>bs. recentArtworks
               (getArtworkDetails w ident origin (getArtworkDetails w ident origin c)) = JArr bs \<and>
         filter (has_id ident) bs = [r2] \<and> length as \<le> length bs))"
proof (intro conjI allI impI)
  let ?call = "callTool w ''search_artwork''
                  (JObj [(''query'', JStr q), (''pageSize'', JNum ''10'')]) 0 c"
  have "recentArtworks (snd ?call) = recentArtworks c" by (rule callTool_keeps)
  then show "recentArtworks (searchArtworks w q c) =
     (case fst ?call of Inr response \<Rightarrow> response | Inl e \<Rightarrow> recentArtworks c)"
    by (cases ?call) (auto simp: searchArtworks_def send_def split: sum.splits)
next
  show "recentArtworks (getArtworkDetails w ident origin c) =
     (case fst (callTool w ''get_artwork_details'' (JObj [(''objectNumber'', ident)]) 0 c) of
        Inl e \<Rightarrow> recentArtworks c
      | Inr r \<Rightarrow>
          (case recentArtworks c of
             JArr as \<Rightarrow>
               (case findIndex as ident origin 0 of
                  Inl e \<Rightarrow> JArr as
                | Inr None \<Rightarrow> JArr (as @ [r])
                | Inr (Some i) \<Rightarrow> JArr (as[i := r]))
           | other \<Rightarrow> other))"
    unfolding getArtworkDetails_cache
    by (auto simp: update_recent_def split: sum.splits jsval.splits option.splits)
next
  fix as
  assume "recentArtworks c = JArr as"
  then show "\<exists>bs. recentArtworks (getArtworkDetails w ident origin c) = JArr bs \<and>
         length as \<le> length bs"
    unfolding getArtworkDetails_cache
    by (auto split: sum.splits dest!: update_recent_grows)
next
  fix as r
  assume "is_primitive ident \<and> recentArtworks c = JArr as \<and>
      fst (callTool w ''get_artwork_details'' (JObj [(''objectNumber'', ident)]) 0 c) = Inr r"
  then show "recentArtworks (getArtworkDetails w ident origin c) =
        (if null_before ident as then JArr as else JArr (upsert ident r as))"
    by (simp add: getArtworkDetails_cache update_recent_primitive)
next
  fix as r1 r2
  assume h: "is_primitive ident \<and> recentArtworks c = JArr as \<and>
      list_all (\<lambda>a. a \<noteq> JNull \<and> a \<noteq> JUndefined) as \<and>
      length (filter (has_id ident) as) \<le> 1 \<and>
      fst (callTool w ''get_artwork_details'' (JObj [(''objectNumber'', ident)]) 0 c) = Inr r1 \<and>
      has_id ident r1 \<and>
      fst (callTool w ''get_artwork_details'' (JObj [(''objectNumber'', ident)]) 0
             (getArtworkDetails w ident origin c)) = Inr r2 \<and>
      has_id ident r2"
  let ?c1 = "getArtworkDetails w ident origin c"
  let ?bs1 = "upsert ident r1 as"
  from h have c1: "recentArtworks ?c1 = JArr ?bs1"
    by (simp add: getArtworkDetails_cache update_recent_primitive no_null_before)
  from h have n1: "list_all (\<lambda>a. a \<noteq> JNull \<and> a \<noteq> JUndefined) ?bs1"
    by (simp add: upsert_no_null)
  from h have f1: "filter (has_id ident) ?bs1 = [r1]" by (simp add: upsert_one)
  from h c1 n1
  have c2: "recentArtworks (getArtworkDetails w ident origin ?c1) = JArr (upsert ident r2 ?bs1)"
    by (simp add: getArtworkDetails_cache[of w ident origin ?c1] update_recent_primitive
        no_null_before)
  have "filter (has_id ident) (upsert ident r2 ?bs1) = [r2]"
    using h f1 by (intro upsert_one) simp_all
  moreover have "length as \<le> length (upsert ident r2 ?bs1)"
    using length_upsert[of as ident r1] length_upsert[of ?bs1 ident r2] by simp
  ultimately show "\<exists>bs. recentArtworks (getArtworkDetails w ident origin ?c1) = JArr bs \<and>
         filter (has_id ident) bs = [r2] \<and> length as \<le> length bs"
    using c2 by blast
qed

theorem cache_mutations_witness:
  "recentArtworks
     (getArtworkDetails (example_world (\<lambda>k. text_result night_watch_text)) (JStr ''SK-C-5'') None
        (example_client (JArr [JStr ''x'']))) = JArr [JStr ''x'', night_watch] \<and>
   (\<exists>bs. recentArtworks
          (getArtworkDetails (example_world (\<lambda>k. text_result night_watch_text))
             (JStr ''SK-C-5'') None
             (getArtworkDetails (example_world (\<lambda>k. text_result night_watch_text))
                (JStr ''SK-C-5'') None (example_client (JArr [JStr ''x''])))) = JArr bs \<and>
        filter (has_id (JStr ''SK-C-5'')) bs = [night_watch] \<and> 1 \<le> length bs)"
proof -
  let ?w = "example_world (\<lambda>k. text_result night_watch_text)"
  let ?c = "example_client (JArr [JStr ''x''])"
  let ?id = "JStr ''SK-C-5''"
  have r: "\<And>c. fst (callTool ?w ''get_artwork_details'' (JObj [(''objectNumber'', ?id)]) 0 c)
      = Inr night_watch"
    by (simp add: callTool.simps try_request_def read_response_def textContent_def
        example_world_def example_parse_def text_result_def night_watch_text_def)
  have h4: "is_primitive ?id \<and> recentArtworks ?c = JArr [JStr ''x''] \<and>
      fst (callTool ?w ''get_artwork_details'' (JObj [(''objectNumber'', ?id)]) 0 ?c)
        = Inr night_watch"
    by (simp add: r example_client_def)
  have h5: "is_primitive ?id \<and> recentArtworks ?c = JArr [JStr ''x''] \<and>
      list_all (\<lambda>a. a \<noteq> JNull \<and> a \<noteq> JUndefined) [JStr ''x''] \<and>
      length (filter (has_id ?id) [JStr ''x'']) \<le> 1 \<and>
      fst (callTool ?w ''get_artwork_details'' (JObj [(''objectNumber'', ?id)]) 0 ?c)
        = Inr night_watch \<and>
      has_id ?id night_watch \<and>
      fst (callTool ?w ''get_artwork_details'' (JObj [(''objectNumber'', ?id)]) 0
             (getArtworkDetails ?w ?id None ?c)) = Inr night_watch \<and>
      has_id ?id night_watch"
    by (simp add: r example_client_def has_id_def night_watch_def)
  note t = cache_mutations[of ?w "''x''" ?c ?id None]
  from t[THEN conjunct2, THEN conjunct2, THEN conjunct2, THEN conjunct1, rule_format, OF h4]
  have a: "recentArtworks (getArtworkDetails ?w ?id None ?c) = JArr [JStr ''x'', night_watch]"
    by (simp add: has_id_def)
  from t[THEN conjunct2, THEN conjunct2, THEN conjunct2, THEN conjunct2, rule_format, OF h5]
  have b: "\<exists>bs. recentArtworks (getArtworkDetails ?w ?id None (getArtworkDetails ?w ?id None ?c))
        = JArr bs \<and> filter (has_id ?id) bs = [night_watch] \<and> 1 \<le> length bs"
    by simp
  from a b show ?thesis by blast
qed

text \<open>
  The claim as it is written fails on a search: the response replaces the cache, here
  one entry by none.
\<close>

theorem search_replaces_cache_counterexample:
  "recentArtworks (example_client (JArr [night_watch])) = JArr [night_watch] \<and>
   recentArtworks (searchArtworks (example_world (\<lambda>k. text_result ''[]'')) ''vermeer''
      (example_client (JArr [night_watch]))) = JArr []"
  by (simp add: searchArtworks_def callTool.simps try_request_def read_response_def
      textContent_def example_world_def example_parse_def text_result_def example_client_def
      send_def log_action_def)

text \<open>
  An object number that is an array is found by identity: of two entries with equal
  arrays as object numbers, the one the array was read from is replaced, here the
  second.
\<close>

lemma identical_entry_is_replaced:
  "recentArtworks
     (getArtworkDetails (example_world (\<lambda>k. text_result night_watch_text))
        (JArr [JStr ''N'']) (Some 1)
        (example_client
           (JArr [JObj [(''objectNumber'', JArr [JStr ''N'']), (''title'', JStr ''first'')],
                  JObj [(''objectNumber'', JArr [JStr ''N'']), (''title'', JStr ''second'')]]))) =
   JArr [JObj [(''objectNumber'', JArr [JStr ''N'']), (''title'', JStr ''first'')], night_watch]"
  by code_simp

section \<open>The generic rendering\<close>

text \<open>
  C8. For a tool name outside the formatter table (\<open>search_artwork\<close>,
  \<open>get_artwork_details\<close>, \<open>get_artist_timeline\<close>) a result is rendered as
  \<open>Result from <name>: <json>\<close>, and this rendering does not fail. When such a tool is
  the first of the registry to match the message and its call returns a result, the
  assembler returns that rendering as the context.
\<close>

theorem generic_rendering:
  "(n \<noteq> ''search_artwork'' \<and> n \<noteq> ''get_artwork_details'' \<and> n \<noteq> ''get_artist_timeline'' \<longrightarrow>
      format_result w n result = Inr (''Result from '' @ n @ '': '' @ JSON_stringify w result)) \<and>
   (availableTools c = pre @ tool # post \<and>
    (\<forall>t\<in>set pre. matchesToolIntent message t = Inr False) \<and>
    matchesToolIntent message tool = Inr True \<and>
    name tool \<noteq> ''search_artwork'' \<and> name tool \<noteq> ''get_artwork_details'' \<and>
    name tool \<noteq> ''get_artist_timeline'' \<and>
    callTool w (name tool) (extractToolArgs message tool) 0 c = (Inr result, c1) \<longrightarrow>
      getRelevantContext w message c =
        (Some (''Result from '' @ name tool @ '': '' @ JSON_stringify w result), c1))"
proof (intro conjI impI)
  assume "n \<noteq> ''search_artwork'' \<and> n \<noteq> ''get_artwork_details'' \<and> n \<noteq> ''get_artist_timeline''"
  then show "format_result w n result =
      Inr (''Result from '' @ n @ '': '' @ JSON_stringify w result)"
    by (simp add: format_result_def)
next
  assume h: "availableTools c = pre @ tool # post \<and>
    (\<forall>t\<in>set pre. matchesToolIntent message t = Inr False) \<and>
    matchesToolIntent message tool = Inr True \<and>
    name tool \<noteq> ''search_artwork'' \<and> name tool \<noteq> ''get_artwork_details'' \<and>
    name tool \<noteq> ''get_artist_timeline'' \<and>
    callTool w (name tool) (extractToolArgs message tool) 0 c = (Inr result, c1)"
  then have "getRelevantContext w message c =
     (case callTool w (name tool) (extractToolArgs message tool) 0 c of
        (Inl e, c1) \<Rightarrow> (Some apology, c1)
      | (Inr result, c1) \<Rightarrow>
          (case format_result w (name tool) result of
             Inl e \<Rightarrow> (Some apology, c1)
           | Inr rendering \<Rightarrow> (Some rendering, c1)))"
    by (intro first_match_is_called) blast+
  with h show "getRelevantContext w message c =
        (Some (''Result from '' @ name tool @ '': '' @ JSON_stringify w result), c1)"
    by (simp add: format_result_def)
qed

theorem generic_rendering_witness:
  "getRelevantContext (example_world (\<lambda>k. text_result ''42'')) ''show collections''
     ((example_client (JArr []))\<lparr>availableTools :=
         [\<lparr>name = ''get_user_sets'', description = None\<rparr>]\<rparr>) =
   (Some ''Result from get_user_sets: 42'',
    logged [Request ''get_user_sets'' (JObj [(''page'', JNum ''0''), (''pageSize'', JNum ''10'')])]
      ((example_client (JArr []))\<lparr>availableTools :=
         [\<lparr>name = ''get_user_sets'', description = None\<rparr>]\<rparr>))"
proof -
  let ?w = "example_world (\<lambda>k. text_result ''42'')"
  let ?tool = "\<lparr>name = ''get_user_sets'', description = None\<rparr>"
  let ?c = "(example_client (JArr []))\<lparr>availableTools := [?tool]\<rparr>"
  let ?c1 = "logged [Request ''get_user_sets''
      (JObj [(''page'', JNum ''0''), (''pageSize'', JNum ''10'')])] ?c"
  have h: "availableTools ?c = [] @ ?tool # [] \<and>
    (\<forall>t\<in>set []. matchesToolIntent ''show collections'' t = Inr False) \<and>
    matchesToolIntent ''show collections'' ?tool = Inr True \<and>
    name ?tool \<noteq> ''search_artwork'' \<and> name ?tool \<noteq> ''get_artwork_details'' \<and>
    name ?tool \<noteq> ''get_artist_timeline'' \<and>
    callTool ?w (name ?tool) (extractToolArgs ''show collections'' ?tool) 0 ?c =
      (Inr (JNum ''42''), ?c1)"
  proof (intro conjI)
    show "matchesToolIntent ''show collections'' ?tool = Inr True" by code_simp
    show "callTool ?w (name ?tool) (extractToolArgs ''show collections'' ?tool) 0 ?c =
      (Inr (JNum ''42''), ?c1)" by code_simp
  qed simp_all
  from generic_rendering[where c = ?c and pre = "[]" and tool = ?tool and post = "[]"
        and message = "''show collections''" and w = ?w and result = "JNum ''42''" and ?c1.0 = ?c1,
      THEN conjunct2, rule_format, OF h]
  show ?thesis by (simp add: example_world_def example_stringify_def)
qed

section \<open>Reset\<close>

text \<open>
  C9. \<open>clearChatHistory\<close> empties the turn history of the language-model service and
  changes nothing else of the client: the tool registry, the recent-result cache, the
  transport trace, the events, and the other fields of the service stay as they are;
  any number of resets in a row leaves the cache unchanged.
\<close>

theorem clearChatHistory_frame:
  "clearChatHistory c = c\<lparr>llm := (llm c)\<lparr>messageHistory := []\<rparr>\<rparr> \<and>
   messageHistory (llm (clearChatHistory c)) = [] \<and>
   recentArtworks (clearChatHistory c) = recentArtworks c \<and>
   recentArtworks ((clearChatHistory ^^ k) c) = recentArtworks c"
proof -
  have "recentArtworks ((clearChatHistory ^^ k) c) = recentArtworks c"
    by (induction k) (simp_all add: clearChatHistory_def)
  then show ?thesis by (simp add: clearChatHistory_def clearHistory_def)
qed

section \<open>The outbound message list\<close>

text \<open>
  C10. Every call of \<open>streamChat\<close> or \<open>chat\<close> with message \<open>M\<close>, of either service, issues
  exactly one request, and its message list is the history before the call followed by
  two user elements: \<open>M\<close> itself (the turn just appended to the history) and the final
  element, which is \<open>M\<close> again, behind the prefix \<open>Context: ...\<close> when a non-empty context
  is given.
\<close>

theorem outbound_holds_message_twice:
  "map req_messages (sent (snd (snd (streamChat w M ctx s)))) =
     map req_messages (sent s) @
       [messageHistory s @ [user_turn M, user_turn (final_content M ctx)]] \<and>
   map req_messages (sent (snd (chat w M ctx s))) =
     map req_messages (sent s) @
       [messageHistory s @ [user_turn M, user_turn (final_content M ctx)]] \<and>
   final_content M None = M \<and> final_content M (Some []) = M \<and>
   final_content M (Some (x # xs)) =
     ''Context: '' @ (x # xs) @ [CHR 0x0A, CHR 0x0A] @ ''User: '' @ M"
  by (simp add: streamChat_sent chat_sent final_content_def)

end
